theory Spec2Isabelle
  imports Complex_Main "HOL-Library.Word"
begin

section \<open>Values of the script\<close>

text \<open>
  The script \<^verbatim>\<open>functions/03_FC.py\<close> works on numpy arrays of double precision numbers.
  A cell is an exact real number or the not-a-number value that numpy produces for the
  mean of an empty slice; rounding and infinities are not part of the model.
\<close>

datatype float64 = Fin real | NaN

text \<open>Arrays of dimension 0, 1 and 2. A matrix keeps its column count beside its rows,
  so that its shape is known when it has no row.\<close>

datatype ndarray = Arr0 float64 | Arr1 "float64 list" | Arr2 nat "float64 list list"

datatype error = SystemExit | IndexError | ValueError | TypeError | OverflowError | OSError

text \<open>Python values that are not arrays: a command-line flag is a string, the source
  compares it with the integer 1, and the list \<^verbatim>\<open>exclude_labels\<close> holds integers or the
  float \<^verbatim>\<open>np.nan\<close>.\<close>

datatype pyval = PyStr string | PyInt int | PyFloat float64

text \<open>The comparison \<^verbatim>\<open>==\<close> of two doubles: not-a-number equals nothing.\<close>

fun feq :: "float64 \<Rightarrow> float64 \<Rightarrow> bool" where
  "feq (Fin x) (Fin y) = (x = y)"
| "feq _ _ = False"

text \<open>Python's \<^verbatim>\<open>==\<close>: numbers compare by value, a string equals no number.\<close>

fun py_eq :: "pyval \<Rightarrow> pyval \<Rightarrow> bool" where
  "py_eq (PyStr s) (PyStr t) = (s = t)"
| "py_eq (PyInt i) (PyInt j) = (i = j)"
| "py_eq (PyFloat x) (PyFloat y) = feq x y"
| "py_eq (PyInt i) (PyFloat y) = feq (Fin (of_int i)) y"
| "py_eq (PyFloat x) (PyInt j) = feq x (Fin (of_int j))"
| "py_eq _ _ = False"

subsection \<open>Console output, files written and exceptions\<close>

text \<open>What the script does to the outside, in order: lines printed (a line that ends with
  a list of integers keeps the list as it is) and arrays saved with \<^verbatim>\<open>np.savetxt\<close>
  (the decimal format of the text file is not modelled). A computation
  yields its effects and either the exception that ended it or its value;
  \<^verbatim>\<open>exit()\<close> raises \<^verbatim>\<open>SystemExit\<close>.\<close>

datatype event = Print string | PrintList string "int list" | SaveTxt string ndarray

type_synonym 'a io = "event list \<times> (error + 'a)"

definition ret :: "'a \<Rightarrow> 'a io" where
  "ret x = ([], Inr x)"

definition raise :: "error \<Rightarrow> 'a io" where
  "raise e = ([], Inl e)"

definition print :: "string \<Rightarrow> unit io" where
  "print s = ([Print s], Inr ())"

definition np_savetxt :: "string \<Rightarrow> ndarray \<Rightarrow> unit io" where
  "np_savetxt path a = ([SaveTxt path a], Inr ())"

definition lift :: "error + 'a \<Rightarrow> 'a io" where
  "lift r = ([], r)"

definition io_bind :: "'a io \<Rightarrow> ('a \<Rightarrow> 'b io) \<Rightarrow> 'b io" where
  "io_bind m f =
     (case snd m of
        Inl e \<Rightarrow> (fst m, Inl e)
      | Inr x \<Rightarrow> (fst m @ fst (f x), snd (f x)))"

definition io_then :: "unit io \<Rightarrow> 'b io \<Rightarrow> 'b io" where
  "io_then m k = io_bind m (\<lambda>_. k)"

subsection \<open>Arithmetic on cells\<close>

fun fadd :: "float64 \<Rightarrow> float64 \<Rightarrow> float64" where
  "fadd (Fin x) (Fin y) = Fin (x + y)"
| "fadd _ _ = NaN"

fun fsub :: "float64 \<Rightarrow> float64 \<Rightarrow> float64" where
  "fsub (Fin x) (Fin y) = Fin (x - y)"
| "fsub _ _ = NaN"

fun fmul :: "float64 \<Rightarrow> float64 \<Rightarrow> float64" where
  "fmul (Fin x) (Fin y) = Fin (x * y)"
| "fmul _ _ = NaN"

definition fsum :: "float64 list \<Rightarrow> float64" where
  "fsum xs = foldl fadd (Fin 0) xs"

definition inner :: "float64 list \<Rightarrow> float64 list \<Rightarrow> float64" where
  "inner u v = fsum (map2 fmul u v)"

subsection \<open>The numpy operations the script calls\<close>

definition column :: "nat \<Rightarrow> 'a list list \<Rightarrow> 'a list" where
  "column j rows = map (\<lambda>r. r ! j) rows"

text \<open>\<^verbatim>\<open>a.shape[0]\<close>: a 0-dimensional array has the empty shape.\<close>

fun shape0 :: "ndarray \<Rightarrow> error + nat" where
  "shape0 (Arr0 _) = Inl IndexError"
| "shape0 (Arr1 v) = Inr (length v)"
| "shape0 (Arr2 n rows) = Inr (length rows)"

fun ndim :: "ndarray \<Rightarrow> nat" where
  "ndim (Arr0 _) = 0"
| "ndim (Arr1 _) = 1"
| "ndim (Arr2 _ _) = 2"

text \<open>\<^verbatim>\<open>np.ones((t, 1))\<close>.\<close>

definition np_ones :: "nat \<Rightarrow> ndarray" where
  "np_ones t = Arr2 1 (replicate t [Fin 1])"

text \<open>\<^verbatim>\<open>np.append(a, b, axis=1)\<close>: both arguments must be matrices with the same
  number of rows.\<close>

fun np_append1 :: "ndarray \<Rightarrow> ndarray \<Rightarrow> error + ndarray" where
  "np_append1 (Arr2 n a) (Arr2 k b) =
     (if length a = length b then Inr (Arr2 (n + k) (map2 (@) a b)) else Inl ValueError)"
| "np_append1 _ _ = Inl ValueError"

text \<open>\<^verbatim>\<open>np.array_equal(a, b)\<close>: same shape and all cells equal under \<^verbatim>\<open>==\<close>.\<close>

fun np_array_equal :: "ndarray \<Rightarrow> ndarray \<Rightarrow> bool" where
  "np_array_equal (Arr0 x) (Arr0 y) = feq x y"
| "np_array_equal (Arr1 u) (Arr1 v) = (length u = length v \<and> list_all2 feq u v)"
| "np_array_equal (Arr2 n a) (Arr2 k b) =
     (n = k \<and> length a = length b \<and> list_all2 (list_all2 feq) a b)"
| "np_array_equal _ _ = False"

text \<open>\<^verbatim>\<open>a.T\<close>.\<close>

fun np_T :: "ndarray \<Rightarrow> ndarray" where
  "np_T (Arr2 n rows) = Arr2 (length rows) (map (\<lambda>j. column j rows) [0..<n])"
| "np_T a = a"

fun scale :: "float64 \<Rightarrow> ndarray \<Rightarrow> ndarray" where
  "scale s (Arr0 x) = Arr0 (fmul s x)"
| "scale s (Arr1 v) = Arr1 (map (fmul s) v)"
| "scale s (Arr2 n rows) = Arr2 n (map (map (fmul s)) rows)"

text \<open>\<^verbatim>\<open>np.dot(a, b)\<close> for arrays of dimension at most 2.\<close>

fun np_dot :: "ndarray \<Rightarrow> ndarray \<Rightarrow> error + ndarray" where
  "np_dot (Arr0 s) b = Inr (scale s b)"
| "np_dot (Arr1 u) (Arr0 s) = Inr (scale s (Arr1 u))"
| "np_dot (Arr2 n a) (Arr0 s) = Inr (scale s (Arr2 n a))"
| "np_dot (Arr1 u) (Arr1 v) =
     (if length u = length v then Inr (Arr0 (inner u v)) else Inl ValueError)"
| "np_dot (Arr1 u) (Arr2 k b) =
     (if length u = length b
      then Inr (Arr1 (map (\<lambda>j. inner u (column j b)) [0..<k])) else Inl ValueError)"
| "np_dot (Arr2 n a) (Arr1 v) =
     (if n = length v then Inr (Arr1 (map (\<lambda>r. inner r v) a)) else Inl ValueError)"
| "np_dot (Arr2 n a) (Arr2 k b) =
     (if n = length b
      then Inr (Arr2 k (map (\<lambda>r. map (\<lambda>j. inner r (column j b)) [0..<k]) a))
      else Inl ValueError)"

text \<open>\<^verbatim>\<open>a - b\<close> with numpy's broadcasting: the shapes are aligned at their last axis,
  and an axis of length 1 is stretched to the length of the other array's axis.\<close>

fun as_matrix :: "ndarray \<Rightarrow> nat \<times> nat \<times> float64 list list" where
  "as_matrix (Arr0 x) = (1, 1, [[x]])"
| "as_matrix (Arr1 v) = (1, length v, [v])"
| "as_matrix (Arr2 n rows) = (length rows, n, rows)"

definition broadcast_len :: "nat \<Rightarrow> nat \<Rightarrow> error + nat" where
  "broadcast_len a b =
     (if a = 1 then Inr b else if b = 1 then Inr a
      else if a = b then Inr a else Inl ValueError)"

definition stretch :: "nat \<Rightarrow> nat \<Rightarrow> nat" where
  "stretch len i = (if len = 1 then 0 else i)"

definition of_matrix :: "nat \<Rightarrow> nat \<Rightarrow> float64 list list \<Rightarrow> ndarray" where
  "of_matrix d n rows =
     (if d = 0 then Arr0 (hd (hd rows)) else if d = 1 then Arr1 (hd rows) else Arr2 n rows)"

definition np_sub :: "ndarray \<Rightarrow> ndarray \<Rightarrow> error + ndarray" where
  "np_sub a b =
     (case (as_matrix a, as_matrix b) of ((ra, ca, A), (rb, cb, B)) \<Rightarrow>
        (case (broadcast_len ra rb, broadcast_len ca cb) of
           (Inr r, Inr c) \<Rightarrow>
             Inr (of_matrix (max (ndim a) (ndim b)) c
                    (map (\<lambda>i. map (\<lambda>j. fsub (A ! stretch ra i ! stretch ca j)
                                              (B ! stretch rb i ! stretch cb j)) [0..<c])
                         [0..<r]))
         | _ \<Rightarrow> Inl ValueError))"

text \<open>The sequencing of steps that may raise.\<close>

definition and_then :: "error + 'a \<Rightarrow> ('a \<Rightarrow> error + 'b) \<Rightarrow> error + 'b" where
  "and_then r f = (case r of Inl e \<Rightarrow> Inl e | Inr x \<Rightarrow> f x)"

text \<open>An index into an axis of length \<open>n\<close>: a negative index counts from the end.\<close>

definition norm_index :: "nat \<Rightarrow> int \<Rightarrow> error + nat" where
  "norm_index n i =
     (if 0 \<le> i \<and> i < int n then Inr (nat i)
      else if - int n \<le> i \<and> i < 0 then Inr (nat (int n + i))
      else Inl IndexError)"

text \<open>\<^verbatim>\<open>a.shape\<close> and \<^verbatim>\<open>a.shape[1]\<close>.\<close>

fun shape :: "ndarray \<Rightarrow> nat list" where
  "shape (Arr0 _) = []"
| "shape (Arr1 v) = [length v]"
| "shape (Arr2 n rows) = [length rows, n]"

fun shape1 :: "ndarray \<Rightarrow> error + nat" where
  "shape1 (Arr2 n rows) = Inr n"
| "shape1 _ = Inl IndexError"

text \<open>\<^verbatim>\<open>np.zeros([t, k])\<close>.\<close>

definition np_zeros :: "nat \<Rightarrow> nat \<Rightarrow> ndarray" where
  "np_zeros t k = Arr2 k (replicate t (replicate k (Fin 0)))"

text \<open>\<^verbatim>\<open>a[:, k] = x\<close> and \<^verbatim>\<open>a[k, :] = x\<close> for a number \<open>x\<close>.\<close>

fun fill_col :: "ndarray \<Rightarrow> int \<Rightarrow> float64 \<Rightarrow> error + ndarray" where
  "fill_col (Arr2 n rows) k x =
     and_then (norm_index n k) (\<lambda>j. Inr (Arr2 n (map (\<lambda>r. r[j := x]) rows)))"
| "fill_col _ k x = Inl IndexError"

fun fill_row :: "ndarray \<Rightarrow> int \<Rightarrow> float64 \<Rightarrow> error + ndarray" where
  "fill_row (Arr2 n rows) k x =
     and_then (norm_index (length rows) k) (\<lambda>i. Inr (Arr2 n (rows[i := replicate n x])))"
| "fill_row _ k x = Inl IndexError"

text \<open>\<^verbatim>\<open>a[:, k] = v\<close> for a vector \<open>v\<close>; a vector of length 1 is stretched over the rows.\<close>

fun set_col :: "ndarray \<Rightarrow> int \<Rightarrow> float64 list \<Rightarrow> error + ndarray" where
  "set_col (Arr2 n rows) k v =
     and_then (norm_index n k) (\<lambda>j.
       if length v = length rows then Inr (Arr2 n (map2 (\<lambda>r x. r[j := x]) rows v))
       else if length v = 1 then Inr (Arr2 n (map (\<lambda>r. r[j := hd v]) rows))
       else Inl ValueError)"
| "set_col _ k v = Inl IndexError"

text \<open>\<^verbatim>\<open>a[:, -k:]\<close> and \<^verbatim>\<open>a[:, :k]\<close> for a count \<open>k\<close> that is not negative; \<^verbatim>\<open>-0\<close> is
  0, so the first slice is the whole array when \<open>k = 0\<close>.\<close>

fun last_cols :: "nat \<Rightarrow> ndarray \<Rightarrow> error + ndarray" where
  "last_cols k (Arr2 n rows) =
     (let d = (if k = 0 then 0 else n - k) in Inr (Arr2 (n - d) (map (drop d) rows)))"
| "last_cols k _ = Inl IndexError"

fun first_cols :: "nat \<Rightarrow> ndarray \<Rightarrow> error + ndarray" where
  "first_cols k (Arr2 n rows) = Inr (Arr2 (min k n) (map (take k) rows))"
| "first_cols k _ = Inl IndexError"

text \<open>\<^verbatim>\<open>a[:, mask]\<close> for a one-dimensional boolean mask, which must be as long as the
  rows of \<open>a\<close>.\<close>

definition pick :: "bool list \<Rightarrow> 'a list \<Rightarrow> 'a list" where
  "pick keep r = map fst (filter snd (zip r keep))"

fun select_cols :: "ndarray \<Rightarrow> bool list \<Rightarrow> error + ndarray" where
  "select_cols (Arr2 n rows) keep =
     (if length keep = n then Inr (Arr2 (length (filter id keep)) (map (pick keep) rows))
      else Inl IndexError)"
| "select_cols _ keep = Inl IndexError"

text \<open>\<^verbatim>\<open>np.mean(a, axis=1)\<close>: the mean of each row; an empty row has the mean
  not-a-number.\<close>

definition fmean :: "float64 list \<Rightarrow> float64" where
  "fmean xs =
     (if xs = [] then NaN
      else case fsum xs of Fin s \<Rightarrow> Fin (s / real (length xs)) | NaN \<Rightarrow> NaN)"

fun np_mean1 :: "ndarray \<Rightarrow> error + float64 list" where
  "np_mean1 (Arr2 n rows) = Inr (map fmean rows)"
| "np_mean1 _ = Inl ValueError"

text \<open>\<^verbatim>\<open>np.triu(a)\<close>: the cells below the diagonal become 0. A vector is repeated as
  the rows of a square matrix first.\<close>

definition triu_rows :: "nat \<Rightarrow> nat \<Rightarrow> (nat \<Rightarrow> nat \<Rightarrow> float64) \<Rightarrow> float64 list list" where
  "triu_rows t n cell =
     map (\<lambda>i. map (\<lambda>j. if i \<le> j then cell i j else Fin 0) [0..<n]) [0..<t]"

fun np_triu :: "ndarray \<Rightarrow> error + ndarray" where
  "np_triu (Arr2 n rows) = Inr (Arr2 n (triu_rows (length rows) n (\<lambda>i j. rows ! i ! j)))"
| "np_triu (Arr1 v) = Inr (Arr2 (length v) (triu_rows (length v) (length v) (\<lambda>i j. v ! j)))"
| "np_triu (Arr0 x) = Inl TypeError"

text \<open>\<^verbatim>\<open>np.isnan(x)\<close> for a Python number.\<close>

fun np_isnan :: "pyval \<Rightarrow> error + bool" where
  "np_isnan (PyInt i) = Inr False"
| "np_isnan (PyFloat x) = Inr (x = NaN)"
| "np_isnan (PyStr s) = Inl TypeError"

text \<open>\<^verbatim>\<open>i + n_sctx\<close> used as an index: only an integer is one.\<close>

fun index_plus :: "pyval \<Rightarrow> nat \<Rightarrow> error + int" where
  "index_plus (PyInt i) k = Inr (i + int k)"
| "index_plus (PyFloat x) k = Inl IndexError"
| "index_plus (PyStr s) k = Inl TypeError"

section \<open>Nuisance regression\<close>

text \<open>
  What the script calls outside itself is a parameter of the model: \<^verbatim>\<open>np.loadtxt\<close> on
  the files it finds by name, scikit-learn's \<^verbatim>\<open>LinearRegression().fit(mdl, Data).coef_\<close>,
  \<^verbatim>\<open>np.corrcoef\<close>, nibabel's \<^verbatim>\<open>read_annot\<close> (of the colour table the script reads its
  length and its fifth column only, so the model keeps the labels and that column) and
  Python's \<^verbatim>\<open>float\<close> on a string. The module-level paths \<^verbatim>\<open>x_dof\<close>, \<^verbatim>\<open>x_csf\<close>,
  \<^verbatim>\<open>x_wm\<close> and \<^verbatim>\<open>x_gs\<close> are parameters as well.
\<close>

record env =
  loadtxt :: "string \<Rightarrow> error + ndarray"
  fit_coef :: "ndarray \<Rightarrow> ndarray \<Rightarrow> error + ndarray"
  corrcoef :: "ndarray \<Rightarrow> error + ndarray"
  read_annot :: "string \<Rightarrow> error + (int list \<times> int list)"
  float_of_str :: "string \<Rightarrow> error + float64"
  x_dof :: string
  x_csf :: string
  x_wm :: string
  x_gs :: string

fun expand_dim :: "ndarray \<Rightarrow> ndarray" where
  "expand_dim (Arr1 v) = Arr2 1 (map (\<lambda>x. [x]) v)"
| "expand_dim a = a"

text \<open>The nested function \<^verbatim>\<open>check_arrays\<close>; the variables of the enclosing call that it
  reads are its arguments here.\<close>

definition check_arrays :: "env \<Rightarrow> ndarray \<Rightarrow> ndarray \<Rightarrow> ndarray \<Rightarrow> ndarray io" where
  "check_arrays E mdl ones Data =
     (if np_array_equal mdl ones \<noteq> True then
        io_then (print ''apply regression'')
          (io_bind (lift (fit_coef E mdl Data)) (\<lambda>coef.
           io_bind (lift (np_dot mdl (np_T coef))) (\<lambda>pred.
           lift (np_sub Data pred))))
      else ret Data)"

text \<open>The chains of \<^verbatim>\<open>np.append(..., axis=1)\<close> that assemble the design matrix.\<close>

fun append_all :: "ndarray \<Rightarrow> ndarray list \<Rightarrow> error + ndarray" where
  "append_all a [] = Inr a"
| "append_all a (b # bs) =
     (case np_append1 a b of Inl e \<Rightarrow> Inl e | Inr ab \<Rightarrow> append_all ab bs)"

text \<open>The part of \<^verbatim>\<open>get_regressed_data\<close> before \<^verbatim>\<open>check_arrays\<close> is called: it loads
  the confounds and yields the design matrix \<^verbatim>\<open>mdl\<close> and the column \<^verbatim>\<open>ones\<close>.\<close>

definition design :: "env \<Rightarrow> string \<Rightarrow> pyval \<Rightarrow> pyval \<Rightarrow> string \<Rightarrow> (ndarray \<times> ndarray) io" where
  "design E x_spike performNSR performGSR Data_name =
     io_bind (lift (loadtxt E (x_dof E))) (\<lambda>dof.
     io_bind (lift (loadtxt E (x_csf E))) (\<lambda>csf0.
     io_bind (lift (loadtxt E (x_wm E))) (\<lambda>wm0.
     io_bind (lift (loadtxt E (x_gs E))) (\<lambda>gs0.
     let csf = expand_dim csf0; wm = expand_dim wm0; gs = expand_dim gs0 in
     io_then (print [])
     (if x_spike \<noteq> [] then
        io_bind (lift (loadtxt E x_spike)) (\<lambda>spike0.
        let spike = expand_dim spike0 in
        io_bind (lift (shape0 spike)) (\<lambda>t.
        let ones = np_ones t in
        if py_eq performNSR (PyStr ''1'') then
          io_then (print (Data_name @ '' model : func ~ spikes + dof + wm + csf''))
            (io_bind (lift (append_all ones [spike, dof, wm, csf])) (\<lambda>mdl. ret (mdl, ones)))
        else if py_eq performGSR (PyStr ''1'') then
          io_then (print (Data_name @ '' model : func ~ spikes + dof + wm + csf + gs''))
            (io_bind (lift (append_all ones [spike, dof, wm, csf, gs])) (\<lambda>mdl. ret (mdl, ones)))
        else
          io_then (print (Data_name @ ''Default model : func ~ spikes''))
            (io_bind (lift (append_all ones [spike])) (\<lambda>mdl. ret (mdl, ones)))))
      else
        io_bind (lift (shape0 wm)) (\<lambda>t.
        let ones = np_ones t in
        io_then (print (''NO spikeRegressors_FD file, will skip loading: '' @ Data_name))
        (if py_eq performNSR (PyInt 1) then
           io_then (print (Data_name @ '', model : func ~ dof + wm + csf''))
             (io_bind (lift (append_all ones [dof, wm, csf])) (\<lambda>mdl. ret (mdl, ones)))
         else if py_eq performGSR (PyInt 1) then
           io_then (print (Data_name @ '', model : func ~ dof + wm + csf + gs''))
             (io_bind (lift (append_all ones [dof, wm, csf, gs])) (\<lambda>mdl. ret (mdl, ones)))
         else
           io_then (print (Data_name @ '', model : none''))
             (ret (ones, ones)))))))))"

definition get_regressed_data ::
    "env \<Rightarrow> string \<Rightarrow> ndarray \<Rightarrow> pyval \<Rightarrow> pyval \<Rightarrow> string \<Rightarrow> ndarray io" where
  "get_regressed_data E x_spike Data performNSR performGSR Data_name =
     io_bind (design E x_spike performNSR performGSR Data_name)
       (\<lambda>(mdl, ones). check_arrays E mdl ones Data)"


section \<open>Subcortical and cerebellar timeseries\<close>

text \<open>Lines 114 to 119. The tuple \<^verbatim>\<open>sctx.shape\<close> is false only when it is empty, that
  is for an array of dimension 0.
  \<^verbatim>\<open>
  sctx = np.loadtxt(funcDir+'/volumetric/' + subject + func_lab + '_timeseries_subcortical.txt')
  if sctx.shape:
      n_sctx = sctx.shape[1]
  else:
      print('Uh oh, your subcortical timeseries file is empty; exiting. Bye-bye')
      exit()
  \<close>\<close>

definition load_sctx :: "env \<Rightarrow> string \<Rightarrow> string \<Rightarrow> string \<Rightarrow> (ndarray \<times> nat) io" where
  "load_sctx E funcDir subject func_lab =
     io_bind (lift (loadtxt E
         (funcDir @ ''/volumetric/'' @ subject @ func_lab @ ''_timeseries_subcortical.txt'')))
       (\<lambda>sctx.
     if shape sctx \<noteq> [] then
       io_bind (lift (shape1 sctx)) (\<lambda>n_sctx. ret (sctx, n_sctx))
     else
       io_then (print ''Uh oh, your subcortical timeseries file is empty; exiting. Bye-bye'')
         (raise SystemExit))"

text \<open>\<^verbatim>\<open>sorted(set(range(start, end + 1)).difference(roiList))\<close> with start 0 and end 33.\<close>

definition missing_elements :: "int list \<Rightarrow> int list" where
  "missing_elements roiList = filter (\<lambda>i. i \<notin> set roiList) (map int [0..<34])"

text \<open>\<^verbatim>\<open>int(x)\<close> of a double rounds towards zero and rejects not-a-number.\<close>

definition trunc0 :: "real \<Rightarrow> int" where
  "trunc0 x = (if 0 \<le> x then \<lfloor>x\<rfloor> else \<lceil>x\<rceil>)"

fun py_int :: "float64 \<Rightarrow> error + int" where
  "py_int (Fin x) = Inr (trunc0 x)"
| "py_int NaN = Inl ValueError"

text \<open>Storing a Python integer in a cell of an \<^verbatim>\<open>int8\<close> array: numpy of the script's time
  (Python 3.7) keeps the low 8 bits of an integer that fits a C long and rejects a larger
  one.\<close>

definition store_int8 :: "int \<Rightarrow> error + 8 word" where
  "store_int8 i =
     (if - (2 ^ 63) \<le> i \<and> i < 2 ^ 63 then Inr (word_of_int i) else Inl OverflowError)"

text \<open>Storing a double in a cell of an \<^verbatim>\<open>int8\<close> array: the fraction is cut off. For a
  value in the range of \<^verbatim>\<open>int8\<close> that is all. Outside it the result depends on the
  platform; the model follows the x86 conversion, which goes through a 32-bit integer:
  the low 8 bits are kept of a value that fits 32 bits, and every other value and
  not-a-number give 0.\<close>

fun astype_int8 :: "float64 \<Rightarrow> 8 word" where
  "astype_int8 (Fin x) =
     (if - (2 ^ 31) \<le> trunc0 x \<and> trunc0 x < 2 ^ 31 then word_of_int (trunc0 x) else 0)"
| "astype_int8 NaN = 0"

definition int8_to_float :: "8 word \<Rightarrow> float64" where
  "int8_to_float w = Fin (of_int (sint w))"

text \<open>\<^verbatim>\<open>a[:, ii]\<close> for an index that is not negative.\<close>

fun get_col :: "ndarray \<Rightarrow> nat \<Rightarrow> error + float64 list" where
  "get_col (Arr2 n rows) ii = (if ii < n then Inr (column ii rows) else Inl IndexError)"
| "get_col _ ii = Inl IndexError"

text \<open>Lines 144 and 145: \<^verbatim>\<open>roiLabelsInt[0,ii] = int(float(roiLabels[ii]))\<close>.\<close>

fun parse_labels :: "env \<Rightarrow> string list \<Rightarrow> error + 8 word list" where
  "parse_labels E [] = Inr []"
| "parse_labels E (s # ss) =
     and_then (float_of_str E s) (\<lambda>x.
     and_then (py_int x) (\<lambda>i.
     and_then (store_int8 i) (\<lambda>w.
     and_then (parse_labels E ss) (\<lambda>ws. Inr (w # ws)))))"

text \<open>Lines 147 and 148: \<^verbatim>\<open>cereb[:,roiLabelsInt[0,ii]] = cereb_tmp[:,ii]\<close>, where
  \<^verbatim>\<open>cereb\<close> has 34 columns of type \<^verbatim>\<open>int8\<close>.\<close>

fun scatter :: "ndarray \<Rightarrow> 8 word list \<Rightarrow> nat \<Rightarrow> 8 word list list \<Rightarrow> error + 8 word list list" where
  "scatter cereb_tmp [] ii cereb = Inr cereb"
| "scatter cereb_tmp (w # ws) ii cereb =
     and_then (get_col cereb_tmp ii) (\<lambda>v.
     and_then (norm_index 34 (sint w)) (\<lambda>j.
     scatter cereb_tmp ws (Suc ii) (map2 (\<lambda>r x. r[j := astype_int8 x]) cereb v)))"

text \<open>Lines 136 to 150. The result is \<^verbatim>\<open>cereb\<close> and \<^verbatim>\<open>exclude_labels\<close>; the \<^verbatim>\<open>int8\<close>
  cells are given as the doubles that \<^verbatim>\<open>np.append(sctx, cereb, axis=1)\<close> makes of them
  in line 154.
  \<^verbatim>\<open>
  if len(roiLabels) == 34:
      print('All cerebellar labels found in parcellation!')
      cereb = cereb_tmp
      exclude_labels = [np.nan]
  else:
      print('Some cerebellar ROIs were lost in co-registration to fMRI space')
      cereb = np.zeros((cereb_tmp.shape[0], 34), dtype=np.int8)
      roiLabelsInt = np.zeros((1,len(roiLabels)), dtype=np.int8)
      for (ii, _) in enumerate(roiLabels):
          roiLabelsInt[0,ii] = int(float(roiLabels[ii]))
      roiLabelsInt = roiLabelsInt - 1
      for (ii, _) in enumerate(roiLabels):
          cereb[:,roiLabelsInt[0,ii]] = cereb_tmp[:,ii]
      exclude_labels = missing_elements(roiLabelsInt[0])
      print('Matrix entries for following ROIs will be zero: ', exclude_labels)
  \<close>\<close>

definition reconcile_cereb :: "env \<Rightarrow> ndarray \<Rightarrow> string list \<Rightarrow> (ndarray \<times> pyval list) io" where
  "reconcile_cereb E cereb_tmp roiLabels =
     (if length roiLabels = 34 then
        io_then (print ''All cerebellar labels found in parcellation!'')
          (ret (cereb_tmp, [PyFloat NaN]))
      else
        io_then (print ''Some cerebellar ROIs were lost in co-registration to fMRI space'')
        (io_bind (lift (shape0 cereb_tmp)) (\<lambda>t.
         io_bind (lift (parse_labels E roiLabels)) (\<lambda>parsed.
         let roiLabelsInt = map (\<lambda>w. w - 1) parsed in
         io_bind (lift (scatter cereb_tmp roiLabelsInt 0 (replicate t (replicate 34 0)))) (\<lambda>cereb.
         let exclude_labels = missing_elements (map sint roiLabelsInt) in
         io_bind ([PrintList ''Matrix entries for following ROIs will be zero: '' exclude_labels],
                  Inr ()) (\<lambda>_.
         ret (Arr2 34 (map (map int8_to_float) cereb), map PyInt exclude_labels)))))))"

section \<open>Functional connectivity\<close>

text \<open>Lines 278 to 284, and again 366 to 372: the rows and columns of the missing
  cerebellar regions are set to 0, then the upper triangle is kept.
  \<^verbatim>\<open>
  if np.isnan(exclude_labels[0]) == False:
      for i in exclude_labels:
          ts_r[:, i + n_sctx] = 0
          ts_r[i + n_sctx, :] = 0
      ts_r = np.triu(ts_r)
  else:
      ts_r = np.triu(ts_r)
  \<close>\<close>

fun zero_missing :: "pyval list \<Rightarrow> nat \<Rightarrow> ndarray \<Rightarrow> error + ndarray" where
  "zero_missing [] n_sctx ts_r = Inr ts_r"
| "zero_missing (i # rest) n_sctx ts_r =
     and_then (index_plus i n_sctx) (\<lambda>k.
     and_then (fill_col ts_r k (Fin 0)) (\<lambda>a.
     and_then (fill_row a k (Fin 0)) (\<lambda>b.
     zero_missing rest n_sctx b)))"

definition zero_and_triu :: "pyval list \<Rightarrow> nat \<Rightarrow> ndarray \<Rightarrow> error + ndarray" where
  "zero_and_triu exclude_labels n_sctx ts_r =
     (case exclude_labels of
        [] \<Rightarrow> Inl IndexError
      | x # _ \<Rightarrow>
          and_then (np_isnan x) (\<lambda>b.
            if b = False then and_then (zero_missing exclude_labels n_sctx ts_r) np_triu
            else np_triu ts_r))"


subsection \<open>Averaging the vertices of each region\<close>

text \<open>\<^verbatim>\<open>np.unique\<close> of the cells of an array: the numbers in increasing order without
  repetition, then one not-a-number cell if the array has any (numpy from version 1.21 on;
  earlier versions keep each of them).\<close>

fun cells :: "ndarray \<Rightarrow> float64 list" where
  "cells (Arr0 x) = [x]"
| "cells (Arr1 v) = v"
| "cells (Arr2 n rows) = concat rows"

definition numbers :: "float64 list \<Rightarrow> real list" where
  "numbers xs = concat (map (\<lambda>c. case c of Fin x \<Rightarrow> [x] | NaN \<Rightarrow> []) xs)"

definition np_unique :: "ndarray \<Rightarrow> float64 list" where
  "np_unique a =
     map Fin (sort (remdups (numbers (cells a))))
       @ (if NaN \<in> set (cells a) then [NaN] else [])"

text \<open>\<^verbatim>\<open>data[:, thisparc == lab]\<close>. The comparison has the shape of \<^verbatim>\<open>thisparc\<close>; a
  boolean matrix has too many axes for the one axis that is left. For a label file that
  holds a single number numpy adds an axis and the assignment of the mean fails later;
  the model stops there at once.\<close>

fun select_where :: "ndarray \<Rightarrow> ndarray \<Rightarrow> nat \<Rightarrow> error + ndarray" where
  "select_where d (Arr1 v) lab = select_cols d (map (\<lambda>x. feq x (Fin (real lab))) v)"
| "select_where d (Arr2 n rows) lab = Inl IndexError"
| "select_where d (Arr0 x) lab = Inl ValueError"

text \<open>The loop over the regions, lines 271 to 273 and 357 to 359: \<open>sel lab\<close> is the slice
  \<^verbatim>\<open>tmpData\<close> of region \<open>lab\<close>, and \<^verbatim>\<open>ts_ctx[:,lab] = np.mean(tmpData, axis = 1)\<close>.\<close>

fun parcellate :: "(nat \<Rightarrow> error + ndarray) \<Rightarrow> nat list \<Rightarrow> ndarray \<Rightarrow> error + ndarray" where
  "parcellate sel [] ts_ctx = Inr ts_ctx"
| "parcellate sel (lab # labs) ts_ctx =
     and_then (sel lab) (\<lambda>tmpData.
     and_then (np_mean1 tmpData) (\<lambda>m.
     and_then (set_col ts_ctx (int lab) m) (\<lambda>ts_ctx'.
     parcellate sel labs ts_ctx')))"

text \<open>Lines 268 to 273, conte69 space:
  \<^verbatim>\<open>
  uparcel = np.unique(thisparc)
  ts_ctx = np.zeros([data_corr_ctx.shape[0], len(uparcel)])
  for lab in range(len(uparcel)):
      tmpData = data_corr_ctx[:, thisparc == lab]
      ts_ctx[:,lab] = np.mean(tmpData, axis = 1)
  \<close>\<close>

definition parcellate_conte :: "ndarray \<Rightarrow> ndarray \<Rightarrow> error + ndarray" where
  "parcellate_conte data_corr_ctx thisparc =
     (let uparcel = np_unique thisparc in
      and_then (shape0 data_corr_ctx) (\<lambda>t.
      parcellate (\<lambda>lab. select_where data_corr_ctx thisparc lab)
        [0..<length uparcel] (np_zeros t (length uparcel))))"

text \<open>Lines 355 to 359, native space; the labels are indices into the colour tables:
  \<^verbatim>\<open>
  uparcel = np.unique(native_parc)
  ts_native_ctx = np.zeros([dataNative_corr.shape[0], len(uparcel)])
  for (lab, _) in enumerate(uparcel):
      tmpData = dataNative_corr[:, native_parc == int(uparcel[lab])]
      ts_native_ctx[:,lab] = np.mean(tmpData, axis = 1)
  \<close>\<close>

definition parcellate_native :: "ndarray \<Rightarrow> nat list \<Rightarrow> error + ndarray" where
  "parcellate_native dataNative_corr native_parc =
     (let uparcel = sort (remdups native_parc) in
      and_then (shape0 dataNative_corr) (\<lambda>t.
      parcellate (\<lambda>lab. select_cols dataNative_corr (map (\<lambda>x. x = uparcel ! lab) native_parc))
        [0..<length uparcel] (np_zeros t (length uparcel))))"

text \<open>Lines 347 to 351: \<^verbatim>\<open>np.where(ctab[:,4] == label)[0][0]\<close> is the first row of the
  colour table with that label, and fails when there is none.\<close>

fun first_index :: "int list \<Rightarrow> int \<Rightarrow> error + nat" where
  "first_index [] y = Inl IndexError"
| "first_index (x # xs) y =
     (if x = y then Inr 0 else and_then (first_index xs y) (\<lambda>i. Inr (Suc i)))"

fun lookup_labels :: "int list \<Rightarrow> nat \<Rightarrow> int list \<Rightarrow> error + nat list" where
  "lookup_labels ctab off [] = Inr []"
| "lookup_labels ctab off (l # ls) =
     and_then (first_index ctab l) (\<lambda>i.
     and_then (lookup_labels ctab off ls) (\<lambda>r. Inr ((i + off) # r)))"

subsection \<open>Strings and paths\<close>

text \<open>\<^verbatim>\<open>s.replace(old, new)\<close> for a pattern that is not empty.\<close>

function py_replace :: "string \<Rightarrow> string \<Rightarrow> string \<Rightarrow> string" where
  "py_replace old new [] = []"
| "py_replace old new (c # cs) =
     (if old \<noteq> [] \<and> take (length old) (c # cs) = old
      then new @ py_replace old new (drop (length old) (c # cs))
      else c # py_replace old new cs)"
  by pat_completeness auto
termination
  by (relation "measure (\<lambda>(old, new, s). length s)") auto

text \<open>\<^verbatim>\<open>os.path.join(a, b)\<close> on a POSIX system.\<close>

definition os_path_join :: "string \<Rightarrow> string \<Rightarrow> string" where
  "os_path_join a b =
     (if b \<noteq> [] \<and> hd b = CHR ''/'' then b
      else if a = [] \<or> last a = CHR ''/'' then a @ b
      else a @ ''/'' @ b)"

subsection \<open>The two loops over the parcellations\<close>

text \<open>The module-level variables that the loops read.\<close>

record globals =
  subject :: string
  funcDir :: string
  labelDir :: string
  parcDir :: string
  n_sctx :: nat
  n :: nat
  n_vertex_ctx_c69 :: nat
  exclude_labels :: "pyval list"
  data_corr :: ndarray
  dataNative_corr :: ndarray
  sctx_cereb_corr :: ndarray

fun for_each :: "('a \<Rightarrow> unit io) \<Rightarrow> 'a list \<Rightarrow> unit io" where
  "for_each body [] = ret ()"
| "for_each body (x # xs) = io_bind (body x) (\<lambda>_. for_each body xs)"

definition conte_FC_path :: "globals \<Rightarrow> string \<Rightarrow> string" where
  "conte_FC_path G parcellation =
     funcDir G @ ''/surfaces/'' @ subject G @ ''_func_space-conte69-32k_atlas-''
       @ py_replace ''_conte69'' [] parcellation @ ''_desc-FC.txt''"

text \<open>The body of the loop of lines 257 to 290; \<^verbatim>\<open>continue\<close> ends it early.\<close>

definition conte_connectome :: "env \<Rightarrow> globals \<Rightarrow> string \<Rightarrow> unit io" where
  "conte_connectome E G parcellation =
     (let parcPath = os_path_join (parcDir G) parcellation @ ''.csv'' in
      if parcellation = ''aparc-a2009s_conte69'' then
        print (''parcellation '' @ parcellation @ '' currently not supported'')
      else
        io_bind (lift (loadtxt E parcPath)) (\<lambda>thisparc.
        io_bind (lift (last_cols (n_vertex_ctx_c69 G) (data_corr G))) (\<lambda>data_corr_ctx.
        io_bind (lift (parcellate_conte data_corr_ctx thisparc)) (\<lambda>ts_ctx.
        io_bind (lift (first_cols (n G) (data_corr G))) (\<lambda>non_ctx.
        io_bind (lift (np_append1 non_ctx ts_ctx)) (\<lambda>ts.
        io_bind (lift (corrcoef E (np_T ts))) (\<lambda>ts_r.
        io_bind (lift (zero_and_triu (exclude_labels G) (n_sctx G) ts_r)) (\<lambda>ts_r'.
        np_savetxt (conte_FC_path G parcellation) ts_r'))))))))"

definition no_FC_notice :: "unit io" where
  "no_FC_notice =
     io_then (print [])
       (print ''...... no FC was selected, will skipp the functional connectome generation'')"

definition conte_connectomes :: "env \<Rightarrow> globals \<Rightarrow> string \<Rightarrow> string list \<Rightarrow> unit io" where
  "conte_connectomes E G noFC parcellationList_conte =
     (if noFC \<noteq> ''TRUE'' then for_each (conte_connectome E G) parcellationList_conte
      else no_FC_notice)"

definition native_ts_path :: "globals \<Rightarrow> string \<Rightarrow> string" where
  "native_ts_path G parcellation =
     funcDir G @ ''/surfaces/'' @ subject G @ ''_func_space-fsnative_atlas-''
       @ parcellation @ ''_desc-timeseries.txt''"

definition native_FC_path :: "globals \<Rightarrow> string \<Rightarrow> string" where
  "native_FC_path G parcellation =
     funcDir G @ ''/surfaces/'' @ subject G @ ''_func_space-fsnative_atlas-''
       @ parcellation @ ''_desc-FC.txt''"

definition mismatch_notice :: "string \<Rightarrow> string" where
  "mismatch_notice parcellation =
     ''ERROR..'' @ parcellation @ ''_mics.annot''
       @ '' has a mismatch between the native surface and the annot file!!''"

text \<open>The body of the loop of lines 334 to 378.\<close>

definition native_connectome :: "env \<Rightarrow> globals \<Rightarrow> string \<Rightarrow> unit io" where
  "native_connectome E G parcellation =
     io_bind (lift (read_annot E
         (os_path_join (labelDir G) (''lh.'' @ parcellation @ ''_mics.annot''))))
       (\<lambda>(labels_lh, ctab_lh).
     io_bind (lift (read_annot E
         (os_path_join (labelDir G) (''rh.'' @ parcellation @ ''_mics.annot''))))
       (\<lambda>(labels_rh, ctab_rh).
     let nativeLength = length labels_lh + length labels_rh in
     io_bind (lift (shape1 (dataNative_corr G))) (\<lambda>width.
     if width \<noteq> nativeLength then print (mismatch_notice parcellation)
     else
       io_bind (lift (lookup_labels ctab_lh 0 labels_lh)) (\<lambda>parc_lh.
       io_bind (lift (lookup_labels ctab_rh (length ctab_lh) labels_rh)) (\<lambda>parc_rh.
       io_bind (lift (parcellate_native (dataNative_corr G) (parc_lh @ parc_rh))) (\<lambda>ts_native_ctx.
       io_bind (lift (np_append1 (sctx_cereb_corr G) ts_native_ctx)) (\<lambda>ts.
       io_then (np_savetxt (native_ts_path G parcellation) ts)
       (io_bind (lift (corrcoef E (np_T ts))) (\<lambda>ts_r.
       io_bind (lift (zero_and_triu (exclude_labels G) (n_sctx G) ts_r)) (\<lambda>ts_r'.
       np_savetxt (native_FC_path G parcellation) ts_r'))))))))))"

definition native_connectomes :: "env \<Rightarrow> globals \<Rightarrow> string \<Rightarrow> string list \<Rightarrow> unit io" where
  "native_connectomes E G noFC parcellationList =
     (if noFC \<noteq> ''TRUE'' then for_each (native_connectome E G) parcellationList
      else no_FC_notice)"

section \<open>What the properties speak about\<close>

text \<open>An array as numpy holds it: every row of a matrix has the length of the shape.\<close>

fun wf_array :: "ndarray \<Rightarrow> bool" where
  "wf_array (Arr2 c rows) = (\<forall>r \<in> set rows. length r = c)"
| "wf_array _ = True"

text \<open>All cells strictly below the main diagonal are 0.\<close>

fun upper_triangular :: "ndarray \<Rightarrow> bool" where
  "upper_triangular (Arr2 c rows) =
     (\<forall>i < length rows. \<forall>j < c. j < i \<longrightarrow> rows ! i ! j = Fin 0)"
| "upper_triangular _ = False"

text \<open>Row \<open>k\<close> and column \<open>k\<close> exist and hold 0 only.\<close>

fun zeroed :: "nat \<Rightarrow> ndarray \<Rightarrow> bool" where
  "zeroed k (Arr2 c rows) =
     (k < c \<and> k < length rows \<and> (\<forall>j < c. rows ! k ! j = Fin 0)
      \<and> (\<forall>i < length rows. rows ! i ! k = Fin 0))"
| "zeroed k _ = False"

text \<open>The native annotations of a parcellation can be read, and their labels are not as
  many as the native timeseries has columns: the test of line 344 fails.\<close>

definition annot_mismatch :: "env \<Rightarrow> globals \<Rightarrow> string \<Rightarrow> bool" where
  "annot_mismatch E G parcellation =
     (case read_annot E (os_path_join (labelDir G) (''lh.'' @ parcellation @ ''_mics.annot'')) of
        Inl e \<Rightarrow> False
      | Inr (labels_lh, ctab_lh) \<Rightarrow>
     (case read_annot E (os_path_join (labelDir G) (''rh.'' @ parcellation @ ''_mics.annot'')) of
        Inl e \<Rightarrow> False
      | Inr (labels_rh, ctab_rh) \<Rightarrow>
     (case shape1 (dataNative_corr G) of
        Inl e \<Rightarrow> False
      | Inr width \<Rightarrow> width \<noteq> length labels_lh + length labels_rh)))"

text \<open>The matrices that a round of a loop is to save, computed without the effects:
  lines 265 to 284 for a conte69 parcellation, lines 335 to 361 for the native timeseries
  and lines 364 to 372 for the native connectivity matrix.\<close>

definition conte_FC_matrix :: "env \<Rightarrow> globals \<Rightarrow> string \<Rightarrow> error + ndarray" where
  "conte_FC_matrix E G parcellation =
     and_then (loadtxt E (os_path_join (parcDir G) parcellation @ ''.csv'')) (\<lambda>thisparc.
     and_then (last_cols (n_vertex_ctx_c69 G) (data_corr G)) (\<lambda>data_corr_ctx.
     and_then (parcellate_conte data_corr_ctx thisparc) (\<lambda>ts_ctx.
     and_then (first_cols (n G) (data_corr G)) (\<lambda>non_ctx.
     and_then (np_append1 non_ctx ts_ctx) (\<lambda>ts.
     and_then (corrcoef E (np_T ts)) (\<lambda>ts_r.
     zero_and_triu (exclude_labels G) (n_sctx G) ts_r))))))"

definition native_timeseries :: "env \<Rightarrow> globals \<Rightarrow> string \<Rightarrow> error + ndarray" where
  "native_timeseries E G parcellation =
     and_then (read_annot E
         (os_path_join (labelDir G) (''lh.'' @ parcellation @ ''_mics.annot'')))
       (\<lambda>(labels_lh, ctab_lh).
     and_then (read_annot E
         (os_path_join (labelDir G) (''rh.'' @ parcellation @ ''_mics.annot'')))
       (\<lambda>(labels_rh, ctab_rh).
     and_then (lookup_labels ctab_lh 0 labels_lh) (\<lambda>parc_lh.
     and_then (lookup_labels ctab_rh (length ctab_lh) labels_rh) (\<lambda>parc_rh.
     and_then (parcellate_native (dataNative_corr G) (parc_lh @ parc_rh)) (\<lambda>ts_native_ctx.
     np_append1 (sctx_cereb_corr G) ts_native_ctx)))))"

definition native_FC_matrix :: "env \<Rightarrow> globals \<Rightarrow> string \<Rightarrow> error + ndarray" where
  "native_FC_matrix E G parcellation =
     and_then (native_timeseries E G parcellation) (\<lambda>ts.
     and_then (corrcoef E (np_T ts)) (\<lambda>ts_r.
     zero_and_triu (exclude_labels G) (n_sctx G) ts_r))"

text \<open>An array of numbers, and the dot product of column \<open>j\<close> of \<open>X\<close> with column \<open>k\<close>
  of \<open>R\<close>.\<close>

definition fin_matrix :: "nat \<Rightarrow> real list list \<Rightarrow> ndarray" where
  "fin_matrix c rows = Arr2 c (map (map Fin) rows)"

definition col_dot :: "real list list \<Rightarrow> nat \<Rightarrow> real list list \<Rightarrow> nat \<Rightarrow> real" where
  "col_dot X j R k = sum_list (map (\<lambda>i. X ! i ! j * R ! i ! k) [0..<length X])"

section \<open>Small runs\<close>

subsection \<open>A small run of the regression: two timepoints, every confound file present\<close>

definition demo_files :: "string \<Rightarrow> error + ndarray" where
  "demo_files path =
     (if path = ''dof.1D'' then Inr (Arr2 2 [[Fin 0, Fin 1], [Fin 1, Fin 0]])
      else if path = ''CSF.txt'' then Inr (Arr1 [Fin 3, Fin 4])
      else if path = ''WM.txt'' then Inr (Arr1 [Fin 5, Fin 6])
      else if path = ''global.txt'' then Inr (Arr1 [Fin 7, Fin 8])
      else if path = ''spikeRegressors_FD.1D'' then Inr (Arr1 [Fin 1, Fin 0])
      else Inl OSError)"

definition demo_env :: env where
  "demo_env = \<lparr>loadtxt = demo_files, fit_coef = (\<lambda>X Y. Inl ValueError),
     corrcoef = (\<lambda>X. Inl ValueError), read_annot = (\<lambda>p. Inl OSError),
     float_of_str = (\<lambda>s. Inl ValueError),
     x_dof = ''dof.1D'', x_csf = ''CSF.txt'', x_wm = ''WM.txt'', x_gs = ''global.txt''\<rparr>"

definition demo_Data :: ndarray where
  "demo_Data = Arr2 2 [[Fin 10, Fin 20], [Fin 30, Fin 40]]"

text \<open>
  The same run with a spike file and both flags off, on data whose columns do not change
  over time. The design is the intercept and the spike column, \<open>[[1, 1], [1, 0]]\<close>, and
  the data are \<open>[[10, 20], [10, 20]]\<close>. \<^verbatim>\<open>LinearRegression()\<close> is built with its default
  \<^verbatim>\<open>fit_intercept=True\<close>: it subtracts from every column of the design and of the data
  the mean of that column, solves the least-squares problem for the centred matrices (of
  several solutions it takes the one of least norm) and keeps the intercept apart from
  \<^verbatim>\<open>coef_\<close>. Here the centred data are 0, so all four coefficients are 0, with no
  rounding, and the intercepts are 10 and 20.
\<close>

definition constant_fit :: "ndarray \<Rightarrow> ndarray \<Rightarrow> error + ndarray" where
  "constant_fit X Y =
     (if X = fin_matrix 2 [[1, 1], [1, 0]] \<and> Y = fin_matrix 2 [[10, 20], [10, 20]]
      then Inr (fin_matrix 2 [[0, 0], [0, 0]])
      else Inl ValueError)"

definition constant_env :: env where
  "constant_env = demo_env\<lparr>fit_coef := constant_fit\<rparr>"

definition constant_Data :: ndarray where
  "constant_Data = Arr2 2 [[Fin 10, Fin 20], [Fin 10, Fin 20]]"

subsection \<open>Two small inputs\<close>

text \<open>A subcortical timeseries file without content: \<^verbatim>\<open>np.loadtxt\<close> answers with an
  array of shape \<^verbatim>\<open>(0,)\<close> and a warning, which the script has switched off.\<close>

definition empty_file_env :: env where
  "empty_file_env = \<lparr>loadtxt = (\<lambda>p. Inr (Arr1 [])), fit_coef = (\<lambda>X Y. Inl ValueError),
     corrcoef = (\<lambda>X. Inl ValueError), read_annot = (\<lambda>p. Inl OSError),
     float_of_str = (\<lambda>s. Inl ValueError),
     x_dof = [], x_csf = [], x_wm = [], x_gs = []\<rparr>"

text \<open>A cerebellar statistics file that names the regions 1 and 3 only.\<close>

definition two_label_env :: env where
  "two_label_env = \<lparr>loadtxt = (\<lambda>p. Inl OSError), fit_coef = (\<lambda>X Y. Inl ValueError),
     corrcoef = (\<lambda>X. Inl ValueError), read_annot = (\<lambda>p. Inl OSError),
     float_of_str = (\<lambda>s. if s = ''1.000000'' then Inr (Fin 1)
                          else if s = ''3.000000'' then Inr (Fin 3) else Inl ValueError),
     x_dof = [], x_csf = [], x_wm = [], x_gs = []\<rparr>"

subsection \<open>A small run of the two loops\<close>

text \<open>Two timepoints, one subcortical and one cerebellar column, and three parcellations:
  \<^verbatim>\<open>x\<close> and \<^verbatim>\<open>y\<close> have their files, \<^verbatim>\<open>aparc-a2009s\<close> has native annotations for
  four vertices where the native surface has three. All columns rise by the same amount,
  so every correlation is 1, which is what the stand-in for \<^verbatim>\<open>np.corrcoef\<close> returns.\<close>

definition fc_files :: "string \<Rightarrow> error + ndarray" where
  "fc_files path =
     (if path = ''parc/x_conte69.csv'' then Inr (Arr1 [Fin 0, Fin 1])
      else if path = ''parc/y_conte69.csv'' then Inr (Arr1 [Fin 0, Fin 0])
      else Inl OSError)"

definition fc_annot :: "string \<Rightarrow> error + (int list \<times> int list)" where
  "fc_annot path =
     (if path = ''lab/lh.x_mics.annot'' then Inr ([10, 20], [10, 20])
      else if path = ''lab/rh.x_mics.annot'' then Inr ([30], [30])
      else if path = ''lab/lh.y_mics.annot'' then Inr ([10, 10], [10])
      else if path = ''lab/rh.y_mics.annot'' then Inr ([30], [30])
      else if path = ''lab/lh.aparc-a2009s_mics.annot'' then Inr ([1, 2], [1, 2])
      else if path = ''lab/rh.aparc-a2009s_mics.annot'' then Inr ([3, 4], [3, 4])
      else Inl OSError)"

definition all_ones :: "ndarray \<Rightarrow> error + ndarray" where
  "all_ones X =
     (case X of
        Arr2 c rows \<Rightarrow>
          Inr (Arr2 (length rows) (replicate (length rows) (replicate (length rows) (Fin 1))))
      | _ \<Rightarrow> Inl ValueError)"

definition fc_env :: env where
  "fc_env = \<lparr>loadtxt = fc_files, fit_coef = (\<lambda>X Y. Inl ValueError),
     corrcoef = all_ones, read_annot = fc_annot,
     float_of_str = (\<lambda>s. Inl ValueError),
     x_dof = [], x_csf = [], x_wm = [], x_gs = []\<rparr>"

definition fc_globals :: globals where
  "fc_globals = \<lparr>subject = ''sub-01'', funcDir = ''func'', labelDir = ''lab'',
     parcDir = ''parc'', n_sctx = 1, n = 2, n_vertex_ctx_c69 = 2,
     exclude_labels = [PyInt 0],
     data_corr = Arr2 4 [[Fin 1, Fin 2, Fin 3, Fin 4], [Fin 5, Fin 6, Fin 7, Fin 8]],
     dataNative_corr = Arr2 3 [[Fin 1, Fin 2, Fin 3], [Fin 4, Fin 5, Fin 6]],
     sctx_cereb_corr = Arr2 2 [[Fin 1, Fin 2], [Fin 5, Fin 6]]\<rparr>"


section \<open>Auxiliary facts\<close>

lemma and_then_Inr [simp]: "and_then (Inr x) f = f x"
  by (simp add: and_then_def)

lemma and_then_Inl [simp]: "and_then (Inl e) f = Inl e"
  by (simp add: and_then_def)

lemma and_then_eq_Inr: "and_then r f = Inr y \<longleftrightarrow> (\<exists>x. r = Inr x \<and> f x = Inr y)"
  by (cases r) simp_all

lemma norm_index_nat: "norm_index c (int k) = Inr j \<longleftrightarrow> (k < c \<and> j = k)"
  by (auto simp: norm_index_def)

lemma np_triu_upper: "np_triu a = Inr b \<Longrightarrow> upper_triangular b \<and> wf_array b"
  by (cases a) (auto simp: triu_rows_def)

lemma np_triu_zeroed:
  assumes "np_triu a = Inr b" and "zeroed k a"
  shows "zeroed k b"
proof (cases a)
  case (Arr2 c rows)
  with assms show ?thesis by (auto simp: triu_rows_def)
qed (use assms in simp_all)

lemma zero_step:
  assumes wf: "wf_array (Arr2 c rows)"
    and col: "fill_col (Arr2 c rows) (int k) (Fin 0) = Inr a"
    and row: "fill_row a (int k) (Fin 0) = Inr b"
  shows "\<exists>rows'. b = Arr2 c rows' \<and> length rows' = length rows \<and> wf_array b \<and> zeroed k b
           \<and> (\<forall>j. zeroed j (Arr2 c rows) \<longrightarrow> zeroed j b)"
proof -
  define rows' where "rows' = (map (\<lambda>r. r[k := Fin 0]) rows)[k := replicate c (Fin 0)]"
  from col have kc: "k < c" and a: "a = Arr2 c (map (\<lambda>r. r[k := Fin 0]) rows)"
    by (auto simp: and_then_eq_Inr norm_index_nat)
  from row a have kr: "k < length rows" and b: "b = Arr2 c rows'"
    by (auto simp: and_then_eq_Inr norm_index_nat rows'_def)
  have len: "length (rows ! i) = c" if "i < length rows" for i
    using wf that by simp
  have l': "length rows' = length rows"
    by (simp add: rows'_def)
  have cell: "rows' ! i ! j = (if i = k \<or> j = k then Fin 0 else rows ! i ! j)"
    if "i < length rows" and "j < c" for i j
  proof (cases "i = k")
    case True
    then show ?thesis using that by (simp add: rows'_def)
  next
    case False
    then have "rows' ! i = (rows ! i)[k := Fin 0]"
      using that by (simp add: rows'_def)
    then show ?thesis using False that len [of i] by (simp add: nth_list_update)
  qed
  have "set rows' \<subseteq> insert (replicate c (Fin 0)) (set (map (\<lambda>r. r[k := Fin 0]) rows))"
    unfolding rows'_def by (rule set_update_subset_insert)
  then have wfb: "wf_array b"
    using wf b by auto
  have z: "zeroed k b"
    using kc kr b l' cell by simp
  have keep: "zeroed j b" if "zeroed j (Arr2 c rows)" for j
    using that b l' cell by simp
  show ?thesis using b l' wfb z keep by blast
qed

lemma zero_missing_zeroed:
  assumes "zero_missing (map PyInt xs) k0 (Arr2 c rows) = Inr b"
    and "wf_array (Arr2 c rows)" and "\<forall>x \<in> set xs. 0 \<le> x"
  shows "(\<exists>rows'. b = Arr2 c rows' \<and> length rows' = length rows) \<and> wf_array b
           \<and> (\<forall>x \<in> set xs. zeroed (nat x + k0) b)
           \<and> (\<forall>j. zeroed j (Arr2 c rows) \<longrightarrow> zeroed j b)"
  using assms
proof (induction xs arbitrary: rows)
  case Nil
  then show ?case by auto
next
  case (Cons x xs)
  from Cons.prems(3) have x0: "0 \<le> x" and rest: "\<forall>y \<in> set xs. 0 \<le> y" by simp_all
  have idx: "x + int k0 = int (nat x + k0)" using x0 by simp
  from Cons.prems(1) obtain a1 b1 where
    col0: "fill_col (Arr2 c rows) (x + int k0) (Fin 0) = Inr a1"
    and row0: "fill_row a1 (x + int k0) (Fin 0) = Inr b1"
    and zm: "zero_missing (map PyInt xs) k0 b1 = Inr b"
    by (auto simp: and_then_eq_Inr simp del: fill_col.simps fill_row.simps)
  note col = col0 [unfolded idx] and row = row0 [unfolded idx]
  from zero_step [OF Cons.prems(2) col row] obtain rows1 where
    b1: "b1 = Arr2 c rows1" and l1: "length rows1 = length rows" and wf1: "wf_array b1"
    and z1: "zeroed (nat x + k0) b1"
    and keep1: "\<forall>j. zeroed j (Arr2 c rows) \<longrightarrow> zeroed j b1"
    by blast
  from Cons.IH [OF zm [unfolded b1] wf1 [unfolded b1] rest]
  have ih: "(\<exists>rows'. b = Arr2 c rows' \<and> length rows' = length rows1) \<and> wf_array b
           \<and> (\<forall>y \<in> set xs. zeroed (nat y + k0) b)
           \<and> (\<forall>j. zeroed j (Arr2 c rows1) \<longrightarrow> zeroed j b)" .
  then show ?case using l1 z1 keep1 b1 by auto
qed

lemma zero_missing_needs_matrix:
  "zero_missing (PyInt x # xs) k0 a = Inr b \<Longrightarrow> \<exists>c rows. a = Arr2 c rows"
  by (cases a) (auto simp: and_then_eq_Inr)

lemma zero_and_triu_upper:
  assumes "zero_and_triu ex k0 a = Inr b"
  shows "upper_triangular b \<and> wf_array b"
proof -
  from assms obtain a1 where "np_triu a1 = Inr b"
    by (auto simp: zero_and_triu_def and_then_eq_Inr split: list.splits if_splits)
  then show ?thesis by (rule np_triu_upper)
qed

lemma zero_and_triu_zeroed:
  assumes "zero_and_triu (map PyInt xs) k0 a = Inr b"
    and "wf_array a" and "\<forall>x \<in> set xs. 0 \<le> x" and "x \<in> set xs"
  shows "zeroed (nat x + k0) b"
proof -
  from assms(4) obtain y ys where xs: "xs = y # ys" by (cases xs) auto
  from assms(1) obtain a1 where zm: "zero_missing (map PyInt xs) k0 a = Inr a1"
    and tr: "np_triu a1 = Inr b"
    by (auto simp: zero_and_triu_def xs and_then_eq_Inr)
  from zm xs obtain c rows where a: "a = Arr2 c rows"
    using zero_missing_needs_matrix [of y "map PyInt ys" k0 a a1] by auto
  from zero_missing_zeroed [OF zm [unfolded a] assms(2) [unfolded a] assms(3)] assms(4)
  have "zeroed (nat x + k0) a1" by blast
  with tr show ?thesis by (rule np_triu_zeroed)
qed



section \<open>Properties of the nuisance regression\<close>

lemma io_bind_lift_Inr [simp]: "io_bind (lift (Inr x)) f = f x"
  by (simp add: io_bind_def lift_def)

lemma io_bind_lift_Inl [simp]: "io_bind (lift (Inl e)) f = ([], Inl e)"
  by (simp add: io_bind_def lift_def)

lemma io_bind_ret [simp]: "io_bind (ret x) f = f x"
  by (simp add: io_bind_def ret_def)

lemma io_then_print [simp]: "io_then (print s) k = (Print s # fst k, snd k)"
  by (simp add: io_then_def io_bind_def print_def)

lemma io_bind_pair_Inr [simp]: "io_bind (out, Inr x) f = (out @ fst (f x), snd (f x))"
  by (simp add: io_bind_def)

lemma io_bind_pair_Inl [simp]: "io_bind (out, Inl e) f = (out, Inl e)"
  by (simp add: io_bind_def)

lemma np_array_equal_ones [simp]: "np_array_equal (np_ones t) (np_ones t)"
  by (simp add: np_ones_def list_all2_conv_all_nth)

lemma shape0_expand_dim: "ndim a \<noteq> 0 \<Longrightarrow> \<exists>t. shape0 (expand_dim a) = Inr t"
  by (cases a) simp_all

lemma design_fit_irrelevant:
  "design (E\<lparr>fit_coef := f\<rparr>) x_spike nsr gsr name = design E x_spike nsr gsr name"
  by (simp add: design_def Let_def cong: if_cong)

text \<open>Without a spike file the comparisons are against the integer 1, which no string
  equals: the design is the column of ones whatever the two flags say.\<close>

lemma design_no_spike:
  assumes "loadtxt E (x_dof E) = Inr dof" and "loadtxt E (x_csf E) = Inr csf"
    and "loadtxt E (x_wm E) = Inr wm" and "loadtxt E (x_gs E) = Inr gs"
    and "shape0 (expand_dim wm) = Inr t"
  shows "design E [] (PyStr s) (PyStr u) name =
           ([Print [], Print (''NO spikeRegressors_FD file, will skip loading: '' @ name),
             Print (name @ '', model : none'')], Inr (np_ones t, np_ones t))"
  using assms by (simp add: design_def ret_def Let_def)

text \<open>With a spike file the three models of the source, in its order of tests.\<close>

lemma design_with_spike:
  assumes "loadtxt E (x_dof E) = Inr dof" and "loadtxt E (x_csf E) = Inr csf"
    and "loadtxt E (x_wm E) = Inr wm" and "loadtxt E (x_gs E) = Inr gs"
    and "x_spike \<noteq> []" and "loadtxt E x_spike = Inr spike"
    and "shape0 (expand_dim spike) = Inr t"
  shows "snd (design E x_spike nsr gsr name) =
           map_sum id (\<lambda>mdl. (mdl, np_ones t))
             (append_all (np_ones t)
                (if py_eq nsr (PyStr ''1'')
                 then [expand_dim spike, dof, expand_dim wm, expand_dim csf]
                 else if py_eq gsr (PyStr ''1'')
                 then [expand_dim spike, dof, expand_dim wm, expand_dim csf, expand_dim gs]
                 else [expand_dim spike]))"
  using assms
  by (simp add: design_def Let_def io_bind_def lift_def ret_def split: sum.splits)

text \<open>
  Claim C1. The claim asks for the design [intercept, dof, wm, csf] when there is no spike
  file and nuisance regression is switched on. The script receives the flag as the string
  \<^verbatim>\<open>"1"\<close> and, on this path only, compares it with the integer 1: for two timepoints
  and every confound file present the design it assembles is the column of ones alone,
  not the five columns that the claim lists (shown second).
\<close>

theorem design_no_spike_NSR_intercept_only:
  "snd (design demo_env [] (PyStr ''1'') (PyStr ''0'') ''conte69'')
     = Inr (Arr2 1 [[Fin 1], [Fin 1]], Arr2 1 [[Fin 1], [Fin 1]])
   \<and> append_all (np_ones 2)
        [Arr2 2 [[Fin 0, Fin 1], [Fin 1, Fin 0]], expand_dim (Arr1 [Fin 5, Fin 6]),
         expand_dim (Arr1 [Fin 3, Fin 4])]
     = Inr (Arr2 5 [[Fin 1, Fin 0, Fin 1, Fin 5, Fin 3], [Fin 1, Fin 1, Fin 0, Fin 6, Fin 4]])"
  by (simp add: design_def demo_env_def demo_files_def ret_def Let_def np_ones_def
      numeral_2_eq_2)

text \<open>
  Claim C2. When the path of the spike file is empty, the confound files load and the
  white-matter signal is not a single number, \<^verbatim>\<open>get_regressed_data\<close> returns its input
  \<^verbatim>\<open>Data\<close> unchanged for every value of the two string flags, and the line it prints
  for the model is the one of the intercept-only model.
\<close>

theorem no_spike_returns_input:
  assumes "loadtxt E (x_dof E) = Inr dof" and "loadtxt E (x_csf E) = Inr csf"
    and "loadtxt E (x_wm E) = Inr wm" and "loadtxt E (x_gs E) = Inr gs"
    and "ndim wm \<noteq> 0"
  shows "get_regressed_data E [] Data (PyStr s) (PyStr u) name =
           ([Print [], Print (''NO spikeRegressors_FD file, will skip loading: '' @ name),
             Print (name @ '', model : none'')], Inr Data)"
proof -
  obtain t where "shape0 (expand_dim wm) = Inr t"
    using shape0_expand_dim [OF assms(5)] by blast
  then show ?thesis
    using assms(1-4) by (simp add: get_regressed_data_def design_no_spike check_arrays_def ret_def)
qed

theorem no_spike_returns_input_witness:
  "get_regressed_data demo_env [] demo_Data (PyStr ''1'') (PyStr ''1'') ''lh_native''
     = ([Print [], Print ''NO spikeRegressors_FD file, will skip loading: lh_native'',
         Print ''lh_native, model : none''],
        Inr (Arr2 2 [[Fin 10, Fin 20], [Fin 30, Fin 40]]))"
  using no_spike_returns_input [of demo_env "Arr2 2 [[Fin 0, Fin 1], [Fin 1, Fin 0]]"
      "Arr1 [Fin 3, Fin 4]" "Arr1 [Fin 5, Fin 6]" "Arr1 [Fin 7, Fin 8]" demo_Data "''1''" "''1''"
      "''lh_native''"]
  by (simp add: demo_env_def demo_files_def demo_Data_def)

text \<open>
  Claim C6. When the design matrix that was assembled equals the column of ones,
  \<^verbatim>\<open>get_regressed_data\<close> takes the branch of \<^verbatim>\<open>check_arrays\<close> that returns \<^verbatim>\<open>Data\<close> as it
  is: nothing is printed after the design was assembled, and the outcome is the same
  whatever the fitting routine would have answered.
\<close>

theorem intercept_only_skips_fit:
  assumes "snd (design E x_spike nsr gsr name) = Inr (mdl, ones)"
    and "np_array_equal mdl ones"
  shows "get_regressed_data E x_spike Data nsr gsr name
           = (fst (design E x_spike nsr gsr name), Inr Data)
         \<and> get_regressed_data (E\<lparr>fit_coef := f\<rparr>) x_spike Data nsr gsr name
           = get_regressed_data E x_spike Data nsr gsr name"
  using assms
  by (simp add: get_regressed_data_def check_arrays_def io_bind_def ret_def design_fit_irrelevant)

theorem intercept_only_skips_fit_witness:
  "get_regressed_data demo_env [] demo_Data (PyStr ''0'') (PyStr ''0'') ''conte69''
     = ([Print [], Print ''NO spikeRegressors_FD file, will skip loading: conte69'',
         Print ''conte69, model : none''], Inr demo_Data)"
proof -
  have d: "design demo_env [] (PyStr ''0'') (PyStr ''0'') ''conte69''
     = ([Print [], Print ''NO spikeRegressors_FD file, will skip loading: conte69'',
         Print ''conte69, model : none''],
        Inr (Arr2 1 [[Fin 1], [Fin 1]], Arr2 1 [[Fin 1], [Fin 1]]))"
    by (simp add: design_def demo_env_def demo_files_def ret_def Let_def np_ones_def)
  show ?thesis
    using intercept_only_skips_fit [of demo_env "[]" "PyStr ''0''" "PyStr ''0''" "''conte69''"
        "Arr2 1 [[Fin 1], [Fin 1]]" "Arr2 1 [[Fin 1], [Fin 1]]" demo_Data]
    by (simp add: d)
qed


section \<open>Properties of the subcortical and cerebellar timeseries\<close>

text \<open>The diagnostic of lines 118 and 119 is reached for an array of dimension 0, which
  \<^verbatim>\<open>np.loadtxt\<close> returns for a file that holds one number.\<close>

lemma load_sctx_single_number:
  assumes "loadtxt E (fd @ ''/volumetric/'' @ sub @ lab @ ''_timeseries_subcortical.txt'')
             = Inr (Arr0 x)"
  shows "load_sctx E fd sub lab =
           ([Print ''Uh oh, your subcortical timeseries file is empty; exiting. Bye-bye''],
            Inl SystemExit)"
  using assms by (simp add: load_sctx_def raise_def)

text \<open>
  Claim C10. The claim asks for a diagnostic message when the subcortical timeseries file
  is empty. For an empty file the array has the shape \<^verbatim>\<open>(0,)\<close>, a tuple that is not
  empty and so counts as true: the script goes on to \<^verbatim>\<open>sctx.shape[1]\<close> and ends with
  an \<^verbatim>\<open>IndexError\<close>, having printed nothing and written nothing.
\<close>

theorem empty_sctx_file_no_diagnostic:
  "load_sctx empty_file_env ''func'' ''sub-01'' ''_se'' = ([], Inl IndexError)"
  by (simp add: load_sctx_def empty_file_env_def)

text \<open>With all 34 labels the timeseries pass through and nothing is marked missing.\<close>

lemma reconcile_cereb_all_labels:
  "length roiLabels = 34 \<Longrightarrow>
     snd (reconcile_cereb E cereb_tmp roiLabels) = Inr (cereb_tmp, [PyFloat NaN])"
  by (simp add: reconcile_cereb_def ret_def)

text \<open>A file with one column, or with one line, is read as a vector, and line 148 then
  fails for want of a second axis.\<close>

lemma reconcile_cereb_one_column:
  "snd (reconcile_cereb two_label_env (Arr1 [Fin (5/2), Fin (-3/4)]) [''1.000000''])
     = Inl IndexError"
  by code_simp

text \<open>
  Claim C3. The claim asks that a column that is present arrives unchanged in the
  34-column array. That array is created with cells of type \<^verbatim>\<open>int8\<close>, so the fractions
  of the timeseries are cut off. With two timepoints, the regions 1 and 3 and the columns
  (2.5, -0.75) and (1.25, 7.5), column 0 of the result is (2, 0) and column 2 is (1, 7).
  The other columns are 0 and the missing regions are 1 and 3 to 33, as the claim says.
\<close>

theorem reconcile_cereb_truncates:
  "snd (reconcile_cereb two_label_env
          (Arr2 2 [[Fin (5/2), Fin (5/4)], [Fin (-3/4), Fin (15/2)]])
          [''1.000000'', ''3.000000''])
     = Inr (Arr2 34 [[Fin 2, Fin 0, Fin 1] @ replicate 31 (Fin 0),
                     [Fin 0, Fin 0, Fin 7] @ replicate 31 (Fin 0)],
            PyInt 1 # map PyInt (map int [3..<34]))"
  by code_simp

section \<open>Properties of the regional averages\<close>

text \<open>
  Claim C4. The claim asks that the column of a unique label is the mean of the vertices
  with that label. The conte69 loop compares the labels with the position \<^verbatim>\<open>lab\<close> in
  the list of unique labels, not with the label at that position, which the native loop
  does. With one timepoint, the vertices (10, 20) and the labels (1, 2): no vertex has the
  label 0, so column 0 is the mean of nothing, and column 1, which belongs to the label 2,
  holds the vertex of label 1. The native loop gives (10, 20) on the same input. The same
  happens with two timepoints, four vertices and the labels (1, 1, 2, 2): the conte69 loop
  gives no mean for the label 1 and the means of the label 1 for the label 2.
\<close>

theorem parcellate_conte_uses_position:
  "parcellate_conte (Arr2 2 [[Fin 10, Fin 20]]) (Arr1 [Fin 1, Fin 2])
     = Inr (Arr2 2 [[NaN, Fin 10]])
   \<and> parcellate_native (Arr2 2 [[Fin 10, Fin 20]]) [1, 2]
     = Inr (Arr2 2 [[Fin 10, Fin 20]])
   \<and> parcellate_conte (Arr2 4 [[Fin 10, Fin 20, Fin 30, Fin 40], [Fin 50, Fin 60, Fin 70, Fin 80]])
        (Arr1 [Fin 1, Fin 1, Fin 2, Fin 2])
     = Inr (Arr2 2 [[NaN, Fin 15], [NaN, Fin 55]])
   \<and> parcellate_native (Arr2 4 [[Fin 10, Fin 20, Fin 30, Fin 40], [Fin 50, Fin 60, Fin 70, Fin 80]])
        [1, 1, 2, 2]
     = Inr (Arr2 2 [[Fin 15, Fin 35], [Fin 55, Fin 75]])"
  by code_simp

section \<open>Properties of the connectivity matrices\<close>

lemma in_io_bind_lift:
  "e \<in> set (fst (io_bind (lift r) f)) \<longleftrightarrow> (\<exists>x. r = Inr x \<and> e \<in> set (fst (f x)))"
  by (cases r) simp_all

lemma io_then_savetxt [simp]: "io_then (np_savetxt p a) k = (SaveTxt p a # fst k, snd k)"
  by (simp add: io_then_def io_bind_def np_savetxt_def)

lemma fst_np_savetxt [simp]: "fst (np_savetxt p a) = [SaveTxt p a]"
  by (simp add: np_savetxt_def)

text \<open>An effect of a loop is an effect of one of its rounds.\<close>

lemma in_for_each:
  "e \<in> set (fst (for_each body xs)) \<Longrightarrow> \<exists>x \<in> set xs. e \<in> set (fst (body x))"
proof (induction xs)
  case Nil
  then show ?case by (simp add: ret_def)
next
  case (Cons x xs)
  then show ?case
    by (cases "snd (body x)") (auto simp: io_bind_def)
qed

lemma ts_path_not_FC_path: "native_ts_path G p \<noteq> native_FC_path G q"
proof
  assume "native_ts_path G p = native_FC_path G q"
  then have "p @ ''_desc-timeseries.txt'' = q @ ''_desc-FC.txt''"
    by (simp add: native_ts_path_def native_FC_path_def)
  then have "rev (p @ ''_desc-timeseries.txt'') ! 4 = rev (q @ ''_desc-FC.txt'') ! 4"
    by simp
  then show False by (simp add: nth_append)
qed

text \<open>Every connectivity matrix that a round saves went through lines 278 to 284 (or
  366 to 372) after \<^verbatim>\<open>np.corrcoef\<close>.\<close>

lemma conte_saved:
  assumes "SaveTxt path a \<in> set (fst (conte_connectome E G p))"
  shows "\<exists>X ts_r. corrcoef E X = Inr ts_r
           \<and> zero_and_triu (exclude_labels G) (n_sctx G) ts_r = Inr a"
proof (cases "p = ''aparc-a2009s_conte69''")
  case True
  with assms show ?thesis by (simp add: conte_connectome_def print_def)
next
  case False
  with assms show ?thesis
    unfolding conte_connectome_def Let_def
    by (simp add: in_io_bind_lift) blast
qed

lemma native_saved:
  assumes "SaveTxt (native_FC_path G q) a \<in> set (fst (native_connectome E G p))"
  shows "\<exists>X ts_r. corrcoef E X = Inr ts_r
           \<and> zero_and_triu (exclude_labels G) (n_sctx G) ts_r = Inr a"
  using assms ts_path_not_FC_path [of G p q]
  unfolding native_connectome_def Let_def
  by (simp add: in_io_bind_lift print_def split: if_splits) blast

lemma no_FC_notice_saves_nothing: "SaveTxt path a \<notin> set (fst no_FC_notice)"
  by (simp add: no_FC_notice_def io_then_print) (simp add: print_def)

lemma conte_loop_saved:
  assumes "SaveTxt path a \<in> set (fst (conte_connectomes E G noFC ps))"
  shows "\<exists>X ts_r. corrcoef E X = Inr ts_r
           \<and> zero_and_triu (exclude_labels G) (n_sctx G) ts_r = Inr a"
proof (cases "noFC = ''TRUE''")
  case True
  with assms show ?thesis
    by (simp add: conte_connectomes_def no_FC_notice_saves_nothing)
next
  case False
  with assms have "SaveTxt path a \<in> set (fst (for_each (conte_connectome E G) ps))"
    by (simp add: conte_connectomes_def)
  then obtain p where "SaveTxt path a \<in> set (fst (conte_connectome E G p))"
    using in_for_each by blast
  then show ?thesis by (rule conte_saved)
qed

lemma native_loop_saved:
  assumes "SaveTxt (native_FC_path G q) a \<in> set (fst (native_connectomes E G noFC ps))"
  shows "\<exists>X ts_r. corrcoef E X = Inr ts_r
           \<and> zero_and_triu (exclude_labels G) (n_sctx G) ts_r = Inr a"
proof (cases "noFC = ''TRUE''")
  case True
  with assms show ?thesis
    by (simp add: native_connectomes_def no_FC_notice_saves_nothing)
next
  case False
  with assms have "SaveTxt (native_FC_path G q) a
      \<in> set (fst (for_each (native_connectome E G) ps))"
    by (simp add: native_connectomes_def)
  then obtain p where "SaveTxt (native_FC_path G q) a \<in> set (fst (native_connectome E G p))"
    using in_for_each by blast
  then show ?thesis by (rule native_saved)
qed

lemma missing_elements_range:
  "x \<in> set (missing_elements l) \<Longrightarrow> 0 \<le> x \<and> x < 34 \<and> x \<notin> set l"
  by (auto simp: missing_elements_def)

lemma all_ones_wf: "all_ones X = Inr r \<Longrightarrow> wf_array r"
  by (auto simp: all_ones_def split: ndarray.splits)

text \<open>What the small run does: the unsupported conte69 parcellation and the native
  parcellation with the wrong number of labels are passed over.\<close>

lemma fc_run_conte:
  "conte_connectomes fc_env fc_globals ''FALSE''
     [''x_conte69'', ''aparc-a2009s_conte69'', ''y_conte69'']
   = ([SaveTxt ''func/surfaces/sub-01_func_space-conte69-32k_atlas-x_desc-FC.txt''
         (Arr2 4 [[Fin 1, Fin 0, Fin 1, Fin 1], [Fin 0, Fin 0, Fin 0, Fin 0],
                  [Fin 0, Fin 0, Fin 1, Fin 1], [Fin 0, Fin 0, Fin 0, Fin 1]]),
       Print ''parcellation aparc-a2009s_conte69 currently not supported'',
       SaveTxt ''func/surfaces/sub-01_func_space-conte69-32k_atlas-y_desc-FC.txt''
         (Arr2 3 [[Fin 1, Fin 0, Fin 1], [Fin 0, Fin 0, Fin 0], [Fin 0, Fin 0, Fin 1]])],
      Inr ())"
  by code_simp

lemma fc_run_native:
  "native_connectomes fc_env fc_globals ''FALSE'' [''x'', ''aparc-a2009s'', ''y'']
   = ([SaveTxt ''func/surfaces/sub-01_func_space-fsnative_atlas-x_desc-timeseries.txt''
         (Arr2 5 [[Fin 1, Fin 2, Fin 1, Fin 2, Fin 3], [Fin 5, Fin 6, Fin 4, Fin 5, Fin 6]]),
       SaveTxt ''func/surfaces/sub-01_func_space-fsnative_atlas-x_desc-FC.txt''
         (Arr2 5 [[Fin 1, Fin 0, Fin 1, Fin 1, Fin 1], [Fin 0, Fin 0, Fin 0, Fin 0, Fin 0],
                  [Fin 0, Fin 0, Fin 1, Fin 1, Fin 1], [Fin 0, Fin 0, Fin 0, Fin 1, Fin 1],
                  [Fin 0, Fin 0, Fin 0, Fin 0, Fin 1]]),
       Print ''ERROR..aparc-a2009s_mics.annot has a mismatch between the native surface and the annot file!!'',
       SaveTxt ''func/surfaces/sub-01_func_space-fsnative_atlas-y_desc-timeseries.txt''
         (Arr2 4 [[Fin 1, Fin 2, Fin (3/2), Fin 3], [Fin 5, Fin 6, Fin (9/2), Fin 6]]),
       SaveTxt ''func/surfaces/sub-01_func_space-fsnative_atlas-y_desc-FC.txt''
         (Arr2 4 [[Fin 1, Fin 0, Fin 1, Fin 1], [Fin 0, Fin 0, Fin 0, Fin 0],
                  [Fin 0, Fin 0, Fin 1, Fin 1], [Fin 0, Fin 0, Fin 0, Fin 1]])],
      Inr ())"
  by code_simp

text \<open>
  Claim C7. Let the list \<^verbatim>\<open>exclude_labels\<close> be the missing regions that
  \<^verbatim>\<open>missing_elements\<close> computed, and let \<^verbatim>\<open>np.corrcoef\<close> return well-formed arrays.
  Then for every missing region \<open>i\<close>, every connectivity matrix that the conte69 loop
  saves and every connectivity matrix that the native loop saves has row and column
  \<open>i + n_sctx\<close>, and both hold 0 only.
\<close>

theorem missing_regions_zeroed:
  assumes wf: "\<forall>X r. corrcoef E X = Inr r \<longrightarrow> wf_array r"
    and ex: "exclude_labels G = map PyInt (missing_elements roiList)"
    and i: "i \<in> set (missing_elements roiList)"
  shows "(SaveTxt path a \<in> set (fst (conte_connectomes E G noFC ps))
            \<longrightarrow> zeroed (nat i + n_sctx G) a)
       \<and> (SaveTxt (native_FC_path G q) b \<in> set (fst (native_connectomes E G noFC ps'))
            \<longrightarrow> zeroed (nat i + n_sctx G) b)"
proof -
  have nonneg: "\<forall>x \<in> set (missing_elements roiList). 0 \<le> x"
    using missing_elements_range by blast
  have key: "zeroed (nat i + n_sctx G) m"
    if "corrcoef E X = Inr r" and "zero_and_triu (exclude_labels G) (n_sctx G) r = Inr m"
    for X r m
    using zero_and_triu_zeroed [OF that(2) [unfolded ex] _ nonneg i] wf that(1) by blast
  show ?thesis
    using key conte_loop_saved [of path a E G noFC ps]
      native_loop_saved [of G q b E noFC ps']
    by blast
qed

theorem missing_regions_zeroed_witness:
  "SaveTxt ''func/surfaces/sub-01_func_space-conte69-32k_atlas-y_desc-FC.txt''
      (Arr2 3 [[Fin 1, Fin 0, Fin 1], [Fin 0, Fin 0, Fin 0], [Fin 0, Fin 0, Fin 1]])
     \<in> set (fst (conte_connectomes fc_env fc_globals ''FALSE''
                [''x_conte69'', ''aparc-a2009s_conte69'', ''y_conte69'']))
   \<and> zeroed 1 (Arr2 3 [[Fin 1, Fin 0, Fin 1], [Fin 0, Fin 0, Fin 0], [Fin 0, Fin 0, Fin 1]])
   \<and> SaveTxt (native_FC_path fc_globals ''y'')
      (Arr2 4 [[Fin 1, Fin 0, Fin 1, Fin 1], [Fin 0, Fin 0, Fin 0, Fin 0],
               [Fin 0, Fin 0, Fin 1, Fin 1], [Fin 0, Fin 0, Fin 0, Fin 1]])
     \<in> set (fst (native_connectomes fc_env fc_globals ''FALSE'' [''x'', ''aparc-a2009s'', ''y'']))
   \<and> zeroed 1 (Arr2 4 [[Fin 1, Fin 0, Fin 1, Fin 1], [Fin 0, Fin 0, Fin 0, Fin 0],
               [Fin 0, Fin 0, Fin 1, Fin 1], [Fin 0, Fin 0, Fin 0, Fin 1]])"
proof -
  have wf: "\<forall>X r. corrcoef fc_env X = Inr r \<longrightarrow> wf_array r"
    by (simp add: fc_env_def all_ones_wf)
  have ex: "exclude_labels fc_globals = map PyInt (missing_elements (map int [1..<34]))"
    by code_simp
  have i: "(0::int) \<in> set (missing_elements (map int [1..<34]))"
    by code_simp
  have one: "nat 0 + n_sctx fc_globals = 1"
    by (simp add: fc_globals_def)
  have c: "SaveTxt ''func/surfaces/sub-01_func_space-conte69-32k_atlas-y_desc-FC.txt''
      (Arr2 3 [[Fin 1, Fin 0, Fin 1], [Fin 0, Fin 0, Fin 0], [Fin 0, Fin 0, Fin 1]])
     \<in> set (fst (conte_connectomes fc_env fc_globals ''FALSE''
                [''x_conte69'', ''aparc-a2009s_conte69'', ''y_conte69'']))"
    by (simp add: fc_run_conte)
  have p: "native_FC_path fc_globals ''y''
      = ''func/surfaces/sub-01_func_space-fsnative_atlas-y_desc-FC.txt''"
    by (simp add: native_FC_path_def fc_globals_def)
  have n: "SaveTxt (native_FC_path fc_globals ''y'')
      (Arr2 4 [[Fin 1, Fin 0, Fin 1, Fin 1], [Fin 0, Fin 0, Fin 0, Fin 0],
               [Fin 0, Fin 0, Fin 1, Fin 1], [Fin 0, Fin 0, Fin 0, Fin 1]])
     \<in> set (fst (native_connectomes fc_env fc_globals ''FALSE'' [''x'', ''aparc-a2009s'', ''y'']))"
    by (simp add: fc_run_native p)
  show ?thesis
    using missing_regions_zeroed [of fc_env fc_globals "map int [1..<34]" 0, OF wf ex i,
        unfolded one] c n
    by blast
qed

text \<open>
  Claim C8. Every connectivity matrix that the conte69 loop or the native loop saves is
  upper-triangular: all cells strictly below the main diagonal are 0, whether or not
  regions are missing.
\<close>

theorem fc_matrices_upper_triangular:
  "(SaveTxt path a \<in> set (fst (conte_connectomes E G noFC ps)) \<longrightarrow> upper_triangular a)
   \<and> (SaveTxt (native_FC_path G q) b \<in> set (fst (native_connectomes E G noFC ps'))
        \<longrightarrow> upper_triangular b)"
  using conte_loop_saved [of path a E G noFC ps] native_loop_saved [of G q b E noFC ps']
    zero_and_triu_upper
  by blast

theorem fc_matrices_upper_triangular_witness:
  "SaveTxt ''func/surfaces/sub-01_func_space-conte69-32k_atlas-x_desc-FC.txt''
      (Arr2 4 [[Fin 1, Fin 0, Fin 1, Fin 1], [Fin 0, Fin 0, Fin 0, Fin 0],
               [Fin 0, Fin 0, Fin 1, Fin 1], [Fin 0, Fin 0, Fin 0, Fin 1]])
     \<in> set (fst (conte_connectomes fc_env fc_globals ''FALSE''
                [''x_conte69'', ''aparc-a2009s_conte69'', ''y_conte69'']))
   \<and> upper_triangular
      (Arr2 4 [[Fin 1, Fin 0, Fin 1, Fin 1], [Fin 0, Fin 0, Fin 0, Fin 0],
               [Fin 0, Fin 0, Fin 1, Fin 1], [Fin 0, Fin 0, Fin 0, Fin 1]])
   \<and> SaveTxt (native_FC_path fc_globals ''x'')
      (Arr2 5 [[Fin 1, Fin 0, Fin 1, Fin 1, Fin 1], [Fin 0, Fin 0, Fin 0, Fin 0, Fin 0],
               [Fin 0, Fin 0, Fin 1, Fin 1, Fin 1], [Fin 0, Fin 0, Fin 0, Fin 1, Fin 1],
               [Fin 0, Fin 0, Fin 0, Fin 0, Fin 1]])
     \<in> set (fst (native_connectomes fc_env fc_globals ''FALSE'' [''x'', ''aparc-a2009s'', ''y'']))
   \<and> upper_triangular
      (Arr2 5 [[Fin 1, Fin 0, Fin 1, Fin 1, Fin 1], [Fin 0, Fin 0, Fin 0, Fin 0, Fin 0],
               [Fin 0, Fin 0, Fin 1, Fin 1, Fin 1], [Fin 0, Fin 0, Fin 0, Fin 1, Fin 1],
               [Fin 0, Fin 0, Fin 0, Fin 0, Fin 1]])"
proof -
  have c: "SaveTxt ''func/surfaces/sub-01_func_space-conte69-32k_atlas-x_desc-FC.txt''
      (Arr2 4 [[Fin 1, Fin 0, Fin 1, Fin 1], [Fin 0, Fin 0, Fin 0, Fin 0],
               [Fin 0, Fin 0, Fin 1, Fin 1], [Fin 0, Fin 0, Fin 0, Fin 1]])
     \<in> set (fst (conte_connectomes fc_env fc_globals ''FALSE''
                [''x_conte69'', ''aparc-a2009s_conte69'', ''y_conte69'']))"
    by (simp add: fc_run_conte)
  have p: "native_FC_path fc_globals ''x''
      = ''func/surfaces/sub-01_func_space-fsnative_atlas-x_desc-FC.txt''"
    by (simp add: native_FC_path_def fc_globals_def)
  have n: "SaveTxt (native_FC_path fc_globals ''x'')
      (Arr2 5 [[Fin 1, Fin 0, Fin 1, Fin 1, Fin 1], [Fin 0, Fin 0, Fin 0, Fin 0, Fin 0],
               [Fin 0, Fin 0, Fin 1, Fin 1, Fin 1], [Fin 0, Fin 0, Fin 0, Fin 1, Fin 1],
               [Fin 0, Fin 0, Fin 0, Fin 0, Fin 1]])
     \<in> set (fst (native_connectomes fc_env fc_globals ''FALSE'' [''x'', ''aparc-a2009s'', ''y'']))"
    by (simp add: fc_run_native p)
  show ?thesis
    using fc_matrices_upper_triangular c n by blast
qed


section \<open>Properties of the loops over the parcellations\<close>

lemma snd_io_bind_lift_Inr:
  "snd (io_bind (lift r) f) = Inr y \<longleftrightarrow> (\<exists>x. r = Inr x \<and> snd (f x) = Inr y)"
  by (cases r) simp_all

text \<open>When no round raises, the loop ends well and its effects are those of its rounds,
  in order.\<close>

lemma for_each_all_ok:
  assumes "\<forall>x \<in> set xs. snd (body x) = Inr ()"
  shows "for_each body xs = (concat (map (\<lambda>x. fst (body x)) xs), Inr ())"
  using assms
  by (induction xs) (simp_all add: ret_def io_bind_def prod_eq_iff)

lemma conte_skipped:
  "conte_connectome E G ''aparc-a2009s_conte69''
     = ([Print ''parcellation aparc-a2009s_conte69 currently not supported''], Inr ())"
  by (simp add: conte_connectome_def print_def)

text \<open>A round that ends well and is not passed over saves the matrix of its
  parcellation, and nothing else.\<close>

lemma conte_done:
  assumes "snd (conte_connectome E G p) = Inr ()" and "p \<noteq> ''aparc-a2009s_conte69''"
  shows "\<exists>M. conte_FC_matrix E G p = Inr M
           \<and> fst (conte_connectome E G p) = [SaveTxt (conte_FC_path G p) M]"
  using assms unfolding conte_connectome_def conte_FC_matrix_def Let_def
  by (auto simp: snd_io_bind_lift_Inr)

lemma native_skipped:
  assumes "annot_mismatch E G p"
  shows "native_connectome E G p = ([Print (mismatch_notice p)], Inr ())"
  using assms unfolding native_connectome_def annot_mismatch_def Let_def
  by (auto simp: print_def split: sum.splits prod.splits)

lemma native_done:
  assumes "snd (native_connectome E G p) = Inr ()" and "\<not> annot_mismatch E G p"
  shows "\<exists>ts M. native_timeseries E G p = Inr ts \<and> native_FC_matrix E G p = Inr M
           \<and> fst (native_connectome E G p)
               = [SaveTxt (native_ts_path G p) ts, SaveTxt (native_FC_path G p) M]"
  using assms
  unfolding native_connectome_def annot_mismatch_def native_FC_matrix_def
    native_timeseries_def Let_def
  by (auto simp: snd_io_bind_lift_Inr print_def split: if_splits)

text \<open>
  Claim C9. Let the connectomes be switched on, and let the round of every parcellation
  that is not passed over end without an exception. Then each loop ends without an
  exception, and its effects are, parcellation by parcellation and in order: in the
  conte69 loop the notice for \<^verbatim>\<open>aparc-a2009s_conte69\<close> and, for any other parcellation,
  its connectivity matrix saved under its name; in the native loop the error line for a
  parcellation whose annotations do not have as many labels as the native timeseries has
  columns and, for any other, its timeseries and its connectivity matrix saved under
  their names.
\<close>

theorem parcellation_failure_is_skipped:
  assumes conte_ok: "\<forall>p \<in> set ps. p \<noteq> ''aparc-a2009s_conte69''
                       \<longrightarrow> snd (conte_connectome E G p) = Inr ()"
    and native_ok: "\<forall>p \<in> set ps'. \<not> annot_mismatch E G p
                       \<longrightarrow> snd (native_connectome E G p) = Inr ()"
    and noFC: "noFC \<noteq> ''TRUE''"
  shows "conte_connectomes E G noFC ps =
           (concat (map (\<lambda>p.
              if p = ''aparc-a2009s_conte69''
              then [Print ''parcellation aparc-a2009s_conte69 currently not supported'']
              else case conte_FC_matrix E G p of
                     Inl e \<Rightarrow> []
                   | Inr M \<Rightarrow>
                       [SaveTxt (funcDir G @ ''/surfaces/'' @ subject G
                                   @ ''_func_space-conte69-32k_atlas-''
                                   @ py_replace ''_conte69'' [] p @ ''_desc-FC.txt'') M]) ps),
            Inr ())
       \<and> native_connectomes E G noFC ps' =
           (concat (map (\<lambda>p.
              if annot_mismatch E G p
              then [Print (''ERROR..'' @ p @ ''_mics.annot''
                      @ '' has a mismatch between the native surface and the annot file!!'')]
              else case (native_timeseries E G p, native_FC_matrix E G p) of
                     (Inr ts, Inr M) \<Rightarrow>
                       [SaveTxt (funcDir G @ ''/surfaces/'' @ subject G
                                   @ ''_func_space-fsnative_atlas-'' @ p
                                   @ ''_desc-timeseries.txt'') ts,
                        SaveTxt (funcDir G @ ''/surfaces/'' @ subject G
                                   @ ''_func_space-fsnative_atlas-'' @ p
                                   @ ''_desc-FC.txt'') M]
                   | _ \<Rightarrow> []) ps'),
            Inr ())"
proof -
  have c_all: "\<forall>p \<in> set ps. snd (conte_connectome E G p) = Inr ()"
    using conte_ok by (auto simp: conte_skipped)
  have n_all: "\<forall>p \<in> set ps'. snd (native_connectome E G p) = Inr ()"
    using native_ok by (auto simp: native_skipped)
  have c_round: "fst (conte_connectome E G p) =
      (if p = ''aparc-a2009s_conte69''
       then [Print ''parcellation aparc-a2009s_conte69 currently not supported'']
       else case conte_FC_matrix E G p of
              Inl e \<Rightarrow> []
            | Inr M \<Rightarrow>
                [SaveTxt (funcDir G @ ''/surfaces/'' @ subject G
                            @ ''_func_space-conte69-32k_atlas-''
                            @ py_replace ''_conte69'' [] p @ ''_desc-FC.txt'') M])"
    if "p \<in> set ps" for p
  proof (cases "p = ''aparc-a2009s_conte69''")
    case True
    then show ?thesis by (simp add: conte_skipped)
  next
    case False
    with c_all that conte_done [of E G p] obtain M where
      "conte_FC_matrix E G p = Inr M"
      "fst (conte_connectome E G p) = [SaveTxt (conte_FC_path G p) M]" by blast
    with False show ?thesis by (simp add: conte_FC_path_def)
  qed
  have n_round: "fst (native_connectome E G p) =
      (if annot_mismatch E G p
       then [Print (''ERROR..'' @ p @ ''_mics.annot''
               @ '' has a mismatch between the native surface and the annot file!!'')]
       else case (native_timeseries E G p, native_FC_matrix E G p) of
              (Inr ts, Inr M) \<Rightarrow>
                [SaveTxt (funcDir G @ ''/surfaces/'' @ subject G
                            @ ''_func_space-fsnative_atlas-'' @ p
                            @ ''_desc-timeseries.txt'') ts,
                 SaveTxt (funcDir G @ ''/surfaces/'' @ subject G
                            @ ''_func_space-fsnative_atlas-'' @ p
                            @ ''_desc-FC.txt'') M]
            | _ \<Rightarrow> [])"
    if "p \<in> set ps'" for p
  proof (cases "annot_mismatch E G p")
    case True
    then show ?thesis by (simp add: native_skipped mismatch_notice_def)
  next
    case False
    with n_all that native_done [of E G p] obtain ts M where
      "native_timeseries E G p = Inr ts" "native_FC_matrix E G p = Inr M"
      "fst (native_connectome E G p)
         = [SaveTxt (native_ts_path G p) ts, SaveTxt (native_FC_path G p) M]" by blast
    with False show ?thesis by (simp add: native_ts_path_def native_FC_path_def)
  qed
  have c: "conte_connectomes E G noFC ps
             = (concat (map (\<lambda>p. fst (conte_connectome E G p)) ps), Inr ())"
    using noFC for_each_all_ok [OF c_all] by (simp add: conte_connectomes_def)
  have nn: "native_connectomes E G noFC ps'
             = (concat (map (\<lambda>p. fst (native_connectome E G p)) ps'), Inr ())"
    using noFC for_each_all_ok [OF n_all] by (simp add: native_connectomes_def)
  show ?thesis
    unfolding c nn
    by (intro conjI) (simp_all add: c_round n_round cong: map_cong)
qed

theorem parcellation_failure_is_skipped_witness:
  "conte_connectomes fc_env fc_globals ''FALSE''
     [''x_conte69'', ''aparc-a2009s_conte69'', ''y_conte69'']
   = ([SaveTxt ''func/surfaces/sub-01_func_space-conte69-32k_atlas-x_desc-FC.txt''
         (Arr2 4 [[Fin 1, Fin 0, Fin 1, Fin 1], [Fin 0, Fin 0, Fin 0, Fin 0],
                  [Fin 0, Fin 0, Fin 1, Fin 1], [Fin 0, Fin 0, Fin 0, Fin 1]]),
       Print ''parcellation aparc-a2009s_conte69 currently not supported'',
       SaveTxt ''func/surfaces/sub-01_func_space-conte69-32k_atlas-y_desc-FC.txt''
         (Arr2 3 [[Fin 1, Fin 0, Fin 1], [Fin 0, Fin 0, Fin 0], [Fin 0, Fin 0, Fin 1]])],
      Inr ())
   \<and> native_connectomes fc_env fc_globals ''FALSE'' [''x'', ''aparc-a2009s'', ''y'']
   = ([SaveTxt ''func/surfaces/sub-01_func_space-fsnative_atlas-x_desc-timeseries.txt''
         (Arr2 5 [[Fin 1, Fin 2, Fin 1, Fin 2, Fin 3], [Fin 5, Fin 6, Fin 4, Fin 5, Fin 6]]),
       SaveTxt ''func/surfaces/sub-01_func_space-fsnative_atlas-x_desc-FC.txt''
         (Arr2 5 [[Fin 1, Fin 0, Fin 1, Fin 1, Fin 1], [Fin 0, Fin 0, Fin 0, Fin 0, Fin 0],
                  [Fin 0, Fin 0, Fin 1, Fin 1, Fin 1], [Fin 0, Fin 0, Fin 0, Fin 1, Fin 1],
                  [Fin 0, Fin 0, Fin 0, Fin 0, Fin 1]]),
       Print ''ERROR..aparc-a2009s_mics.annot has a mismatch between the native surface and the annot file!!'',
       SaveTxt ''func/surfaces/sub-01_func_space-fsnative_atlas-y_desc-timeseries.txt''
         (Arr2 4 [[Fin 1, Fin 2, Fin (3/2), Fin 3], [Fin 5, Fin 6, Fin (9/2), Fin 6]]),
       SaveTxt ''func/surfaces/sub-01_func_space-fsnative_atlas-y_desc-FC.txt''
         (Arr2 4 [[Fin 1, Fin 0, Fin 1, Fin 1], [Fin 0, Fin 0, Fin 0, Fin 0],
                  [Fin 0, Fin 0, Fin 1, Fin 1], [Fin 0, Fin 0, Fin 0, Fin 1]])],
      Inr ())"
proof -
  have conte_ok: "\<forall>p \<in> set [''x_conte69'', ''aparc-a2009s_conte69'', ''y_conte69''].
      p \<noteq> ''aparc-a2009s_conte69'' \<longrightarrow> snd (conte_connectome fc_env fc_globals p) = Inr ()"
    by code_simp
  have native_ok: "\<forall>p \<in> set [''x'', ''aparc-a2009s'', ''y''].
      \<not> annot_mismatch fc_env fc_globals p
        \<longrightarrow> snd (native_connectome fc_env fc_globals p) = Inr ()"
    by code_simp
  have noFC: "''FALSE'' \<noteq> ''TRUE''"
    by simp
  have cr: "concat (map (\<lambda>p.
              if p = ''aparc-a2009s_conte69''
              then [Print ''parcellation aparc-a2009s_conte69 currently not supported'']
              else case conte_FC_matrix fc_env fc_globals p of
                     Inl e \<Rightarrow> []
                   | Inr M \<Rightarrow>
                       [SaveTxt (funcDir fc_globals @ ''/surfaces/'' @ subject fc_globals
                                   @ ''_func_space-conte69-32k_atlas-''
                                   @ py_replace ''_conte69'' [] p @ ''_desc-FC.txt'') M])
              [''x_conte69'', ''aparc-a2009s_conte69'', ''y_conte69''])
      = [SaveTxt ''func/surfaces/sub-01_func_space-conte69-32k_atlas-x_desc-FC.txt''
           (Arr2 4 [[Fin 1, Fin 0, Fin 1, Fin 1], [Fin 0, Fin 0, Fin 0, Fin 0],
                    [Fin 0, Fin 0, Fin 1, Fin 1], [Fin 0, Fin 0, Fin 0, Fin 1]]),
         Print ''parcellation aparc-a2009s_conte69 currently not supported'',
         SaveTxt ''func/surfaces/sub-01_func_space-conte69-32k_atlas-y_desc-FC.txt''
           (Arr2 3 [[Fin 1, Fin 0, Fin 1], [Fin 0, Fin 0, Fin 0], [Fin 0, Fin 0, Fin 1]])]"
    by code_simp
  have nr: "concat (map (\<lambda>p.
              if annot_mismatch fc_env fc_globals p
              then [Print (''ERROR..'' @ p @ ''_mics.annot''
                      @ '' has a mismatch between the native surface and the annot file!!'')]
              else case (native_timeseries fc_env fc_globals p,
                         native_FC_matrix fc_env fc_globals p) of
                     (Inr ts, Inr M) \<Rightarrow>
                       [SaveTxt (funcDir fc_globals @ ''/surfaces/'' @ subject fc_globals
                                   @ ''_func_space-fsnative_atlas-'' @ p
                                   @ ''_desc-timeseries.txt'') ts,
                        SaveTxt (funcDir fc_globals @ ''/surfaces/'' @ subject fc_globals
                                   @ ''_func_space-fsnative_atlas-'' @ p
                                   @ ''_desc-FC.txt'') M]
                   | _ \<Rightarrow> [])
              [''x'', ''aparc-a2009s'', ''y''])
      = [SaveTxt ''func/surfaces/sub-01_func_space-fsnative_atlas-x_desc-timeseries.txt''
           (Arr2 5 [[Fin 1, Fin 2, Fin 1, Fin 2, Fin 3], [Fin 5, Fin 6, Fin 4, Fin 5, Fin 6]]),
         SaveTxt ''func/surfaces/sub-01_func_space-fsnative_atlas-x_desc-FC.txt''
           (Arr2 5 [[Fin 1, Fin 0, Fin 1, Fin 1, Fin 1], [Fin 0, Fin 0, Fin 0, Fin 0, Fin 0],
                    [Fin 0, Fin 0, Fin 1, Fin 1, Fin 1], [Fin 0, Fin 0, Fin 0, Fin 1, Fin 1],
                    [Fin 0, Fin 0, Fin 0, Fin 0, Fin 1]]),
         Print ''ERROR..aparc-a2009s_mics.annot has a mismatch between the native surface and the annot file!!'',
         SaveTxt ''func/surfaces/sub-01_func_space-fsnative_atlas-y_desc-timeseries.txt''
           (Arr2 4 [[Fin 1, Fin 2, Fin (3/2), Fin 3], [Fin 5, Fin 6, Fin (9/2), Fin 6]]),
         SaveTxt ''func/surfaces/sub-01_func_space-fsnative_atlas-y_desc-FC.txt''
           (Arr2 4 [[Fin 1, Fin 0, Fin 1, Fin 1], [Fin 0, Fin 0, Fin 0, Fin 0],
                    [Fin 0, Fin 0, Fin 1, Fin 1], [Fin 0, Fin 0, Fin 0, Fin 1]])]"
    by code_simp
  show ?thesis
    using parcellation_failure_is_skipped [OF conte_ok native_ok noFC]
    unfolding cr nr .
qed

section \<open>Properties of the residual of the fit\<close>

lemma foldl_fadd_Fin: "foldl fadd (Fin a) (map Fin xs) = Fin (a + sum_list xs)"
  by (induction xs arbitrary: a) (simp_all add: algebra_simps)

lemma fsum_Fin: "fsum (map Fin xs) = Fin (sum_list xs)"
  by (simp add: fsum_def foldl_fadd_Fin)

lemma map2_fmul_Fin: "map2 fmul (map Fin u) (map Fin v) = map Fin (map2 (*) u v)"
  by (induction u arbitrary: v) (auto simp: zip_Cons1 split: list.splits)

lemma inner_Fin: "inner (map Fin u) (map Fin v) = Fin (sum_list (map2 (*) u v))"
  by (simp only: inner_def map2_fmul_Fin fsum_Fin)

lemma sum_list_map2_nth:
  "length u = c \<Longrightarrow> sum_list (map2 (*) u (map f [0..<c])) = (\<Sum>l<c. u ! l * f l)"
proof -
  assume len: "length u = c"
  have "map2 (*) u (map f [0..<c]) = map (\<lambda>l. u ! l * f l) [0..<c]"
    using len by (intro nth_equalityI) simp_all
  then show ?thesis
    by (simp add: interv_sum_list_conv_sum_set_nat atLeast0LessThan)
qed

text \<open>The prediction \<^verbatim>\<open>np.dot(mdl, slm.coef_.T)\<close> on arrays of numbers.\<close>

lemma np_dot_T_fin:
  assumes "\<forall>r \<in> set X. length r = p" and "length B = m" and "\<forall>r \<in> set B. length r = p"
  shows "np_dot (fin_matrix p X) (np_T (fin_matrix p B))
           = Inr (fin_matrix m (map (\<lambda>x. map (\<lambda>k. \<Sum>l<p. x ! l * B ! k ! l) [0..<m]) X))"
proof -
  have col: "column k (map (\<lambda>j. column j (map (map Fin) B)) [0..<p])
               = map Fin (map (\<lambda>l. B ! k ! l) [0..<p])" if "k < m" for k
    using assms(2,3) that by (simp add: column_def)
  have cell: "inner (map Fin x) (column k (map (\<lambda>j. column j (map (map Fin) B)) [0..<p]))
                = Fin (\<Sum>l<p. x ! l * B ! k ! l)" if "x \<in> set X" and "k < m" for x k
  proof -
    have "inner (map Fin x) (column k (map (\<lambda>j. column j (map (map Fin) B)) [0..<p]))
            = inner (map Fin x) (map Fin (map (\<lambda>l. B ! k ! l) [0..<p]))"
      by (simp only: col [OF that(2)])
    also have "\<dots> = Fin (sum_list (map2 (*) x (map (\<lambda>l. B ! k ! l) [0..<p])))"
      by (rule inner_Fin)
    also have "\<dots> = Fin (\<Sum>l<p. x ! l * B ! k ! l)"
      using assms(1) that(1) by (simp add: sum_list_map2_nth)
    finally show ?thesis .
  qed
  have "map (\<lambda>r. map (\<lambda>k. inner r (column k (map (\<lambda>j. column j (map (map Fin) B)) [0..<p])))
                 [0..<m]) (map (map Fin) X)
          = map (map Fin) (map (\<lambda>x. map (\<lambda>k. \<Sum>l<p. x ! l * B ! k ! l) [0..<m]) X)"
    by (simp add: cell)
  then show ?thesis
    using assms(2) by (simp add: fin_matrix_def)
qed

lemma broadcast_len_same: "broadcast_len a a = Inr a"
  by (simp add: broadcast_len_def)

lemma stretch_less: "i < a \<Longrightarrow> stretch a i = i"
  by (simp add: stretch_def)

text \<open>The difference \<^verbatim>\<open>Data - prediction\<close> on arrays of numbers of one shape.\<close>

lemma np_sub_fin:
  assumes "length P = length Y" and "\<forall>r \<in> set Y. length r = m" and "\<forall>r \<in> set P. length r = m"
  shows "np_sub (fin_matrix m Y) (fin_matrix m P)
           = Inr (fin_matrix m (map (\<lambda>i. map (\<lambda>k. Y ! i ! k - P ! i ! k) [0..<m]) [0..<length Y]))"
proof -
  have cell: "fsub (map (map Fin) Y ! stretch (length Y) i ! stretch m k)
                   (map (map Fin) P ! stretch (length Y) i ! stretch m k)
                = Fin (Y ! i ! k - P ! i ! k)" if "i < length Y" and "k < m" for i k
    using that assms by (simp add: stretch_less)
  have "map (\<lambda>i. map (\<lambda>k. fsub (map (map Fin) Y ! stretch (length Y) i ! stretch m k)
                              (map (map Fin) P ! stretch (length Y) i ! stretch m k)) [0..<m])
            [0..<length Y]
          = map (map Fin) (map (\<lambda>i. map (\<lambda>k. Y ! i ! k - P ! i ! k) [0..<m]) [0..<length Y])"
    by (simp add: cell)
  then show ?thesis
    using assms(1)
    by (simp add: np_sub_def fin_matrix_def broadcast_len_same of_matrix_def)
qed

lemma snd_io_bind: "snd m = Inr x \<Longrightarrow> snd (io_bind m f) = snd (f x)"
  by (simp add: io_bind_def)

text \<open>What \<^verbatim>\<open>get_regressed_data\<close> returns for a design that is not the column of ones
  alone, on arrays of numbers: the data minus the design times the coefficients. The
  intercept of the fit is no part of it.\<close>

lemma residual_formula:
  assumes des: "snd (design E x_spike nsr gsr name) = Inr (fin_matrix p X, ones)"
    and nondeg: "\<not> np_array_equal (fin_matrix p X) ones"
    and fit: "fit_coef E (fin_matrix p X) (fin_matrix m Y) = Inr (fin_matrix p B)"
    and lenY: "length Y = length X"
    and wX: "\<forall>r \<in> set X. length r = p" and wY: "\<forall>r \<in> set Y. length r = m"
    and lenB: "length B = m" and wB: "\<forall>r \<in> set B. length r = p"
  shows "snd (get_regressed_data E x_spike (fin_matrix m Y) nsr gsr name)
           = Inr (fin_matrix m
               (map (\<lambda>i. map (\<lambda>k. Y ! i ! k - (\<Sum>l<p. X ! i ! l * B ! k ! l)) [0..<m])
                    [0..<length Y]))"
proof -
  define P where "P = map (\<lambda>x. map (\<lambda>k. \<Sum>l<p. x ! l * B ! k ! l) [0..<m]) X"
  have dot: "np_dot (fin_matrix p X) (np_T (fin_matrix p B)) = Inr (fin_matrix m P)"
    unfolding P_def using wX lenB wB by (rule np_dot_T_fin)
  have sub: "np_sub (fin_matrix m Y) (fin_matrix m P)
               = Inr (fin_matrix m (map (\<lambda>i. map (\<lambda>k. Y ! i ! k - P ! i ! k) [0..<m])
                                        [0..<length Y]))"
    by (rule np_sub_fin) (simp_all add: P_def lenY wY)
  have same: "map (\<lambda>i. map (\<lambda>k. Y ! i ! k - P ! i ! k) [0..<m]) [0..<length Y]
                = map (\<lambda>i. map (\<lambda>k. Y ! i ! k - (\<Sum>l<p. X ! i ! l * B ! k ! l)) [0..<m])
                      [0..<length Y]"
    using lenY by (simp add: P_def)
  have "snd (check_arrays E (fin_matrix p X) ones (fin_matrix m Y))
          = Inr (fin_matrix m (map (\<lambda>i. map (\<lambda>k. Y ! i ! k - P ! i ! k) [0..<m])
                                   [0..<length Y]))"
    using nondeg by (simp add: check_arrays_def fit dot sub lift_def)
  then show ?thesis
    by (simp add: get_regressed_data_def snd_io_bind [OF des] same)
qed

text \<open>
  Claim C5. The claim asks that the residual be orthogonal to every column of the design.
  The design holds a column of ones for the intercept, but the fit is made with its own
  intercept, which \<^verbatim>\<open>coef_\<close> does not hold and line 200 does not subtract. On data that
  do not change over time, \<open>[[10, 20], [10, 20]]\<close>, with the intercept and a spike column
  as design, the coefficients are 0 and the residual is the data as they were: its dot
  products with the column of ones are 20 and 40, with the spike column 10 and 20.
\<close>

theorem residual_keeps_intercept:
  "design constant_env ''spikeRegressors_FD.1D'' (PyStr ''0'') (PyStr ''0'') ''conte69''
     = ([Print [], Print ''conte69Default model : func ~ spikes''],
        Inr (Arr2 2 [[Fin 1, Fin 1], [Fin 1, Fin 0]], Arr2 1 [[Fin 1], [Fin 1]]))
   \<and> get_regressed_data constant_env ''spikeRegressors_FD.1D'' constant_Data
        (PyStr ''0'') (PyStr ''0'') ''conte69''
     = ([Print [], Print ''conte69Default model : func ~ spikes'', Print ''apply regression''],
        Inr (Arr2 2 [[Fin 10, Fin 20], [Fin 10, Fin 20]]))
   \<and> col_dot [[1, 1], [1, 0]] 0 [[10, 20], [10, 20]] 0 = 20
   \<and> col_dot [[1, 1], [1, 0]] 0 [[10, 20], [10, 20]] 1 = 40
   \<and> col_dot [[1, 1], [1, 0]] 1 [[10, 20], [10, 20]] 0 = 10
   \<and> col_dot [[1, 1], [1, 0]] 1 [[10, 20], [10, 20]] 1 = 20"
  by code_simp

text \<open>The same holds whatever the rounding of the fit: for this design and these data, and
  any four coefficients between -1 and 1, the dot products of the residual with the two
  design columns are at least 17, 37, 8 and 18.\<close>

lemma residual_far_from_orthogonal:
  assumes fit: "f (fin_matrix 2 [[1, 1], [1, 0]]) (fin_matrix 2 [[10, 20], [10, 20]])
                  = Inr (fin_matrix 2 [[a, b], [c, d]])"
    and bounds: "\<bar>a\<bar> \<le> 1" "\<bar>b\<bar> \<le> 1" "\<bar>c\<bar> \<le> 1" "\<bar>d\<bar> \<le> 1"
  shows "\<exists>R. snd (get_regressed_data (demo_env\<lparr>fit_coef := f\<rparr>) ''spikeRegressors_FD.1D''
                 constant_Data (PyStr ''0'') (PyStr ''0'') ''conte69'') = Inr (fin_matrix 2 R)
           \<and> 17 \<le> col_dot [[1, 1], [1, 0]] 0 R 0 \<and> 37 \<le> col_dot [[1, 1], [1, 0]] 0 R 1
           \<and> 8 \<le> col_dot [[1, 1], [1, 0]] 1 R 0 \<and> 18 \<le> col_dot [[1, 1], [1, 0]] 1 R 1"
proof -
  have "snd (design demo_env ''spikeRegressors_FD.1D'' (PyStr ''0'') (PyStr ''0'') ''conte69'')
          = Inr (fin_matrix 2 [[1, 1], [1, 0]], np_ones 2)"
    by code_simp
  then have des: "snd (design (demo_env\<lparr>fit_coef := f\<rparr>) ''spikeRegressors_FD.1D''
                        (PyStr ''0'') (PyStr ''0'') ''conte69'')
                    = Inr (fin_matrix 2 [[1, 1], [1, 0]], np_ones 2)"
    by (simp only: design_fit_irrelevant)
  have nondeg: "\<not> np_array_equal (fin_matrix 2 [[1, 1], [1, 0]]) (np_ones 2)"
    by code_simp
  have fit': "fit_coef (demo_env\<lparr>fit_coef := f\<rparr>) (fin_matrix 2 [[1, 1], [1, 0]])
                (fin_matrix 2 [[10, 20], [10, 20]]) = Inr (fin_matrix 2 [[a, b], [c, d]])"
    using fit by simp
  have data: "constant_Data = fin_matrix 2 [[10, 20], [10, 20]]"
    by (simp add: constant_Data_def fin_matrix_def)
  have two: "[0..<2] = [0, Suc 0]" "{..<2::nat} = {0, Suc 0}"
    by (auto simp: upt_rec)
  have run: "snd (get_regressed_data (demo_env\<lparr>fit_coef := f\<rparr>) ''spikeRegressors_FD.1D''
                    constant_Data (PyStr ''0'') (PyStr ''0'') ''conte69'')
               = Inr (fin_matrix 2 [[10 - (a + b), 20 - (c + d)], [10 - a, 20 - c]])"
    unfolding data
    by (subst residual_formula [OF des nondeg fit']) (simp_all add: two)
  have dots: "col_dot [[1, 1], [1, 0]] 0 [[10 - (a + b), 20 - (c + d)], [10 - a, 20 - c]] 0
                = 20 - 2 * a - b"
    "col_dot [[1, 1], [1, 0]] 0 [[10 - (a + b), 20 - (c + d)], [10 - a, 20 - c]] 1
                = 40 - 2 * c - d"
    "col_dot [[1, 1], [1, 0]] 1 [[10 - (a + b), 20 - (c + d)], [10 - a, 20 - c]] 0
                = 10 - a - b"
    "col_dot [[1, 1], [1, 0]] 1 [[10 - (a + b), 20 - (c + d)], [10 - a, 20 - c]] 1
                = 20 - c - d"
    by (simp_all add: col_dot_def two)
  have far: "17 \<le> 20 - 2 * a - b" "37 \<le> 40 - 2 * c - d" "8 \<le> 10 - a - b"
    "18 \<le> 20 - c - d"
    using bounds by linarith+
  show ?thesis
    by (intro exI [of _ "[[10 - (a + b), 20 - (c + d)], [10 - a, 20 - c]]"])
      (simp only: run dots far simp_thms)
qed

end
